theory Spec2Isabelle
  imports Complex_Main "HOL-Library.AList" "HOL-Library.Monad_Syntax"
begin

section \<open>Python values\<close>

text \<open>
  The clients exchange JSON with the data service. \<open>json\<close> is the set of values that
  \<^verbatim>\<open>json.loads\<close> returns and \<^verbatim>\<open>json.dumps\<close> accepts: \<^verbatim>\<open>None\<close>, booleans, unbounded
  integers, floats, strings, lists and dicts with string keys. A dict is an association
  list in insertion order; a lookup takes the binding of the key (a Python dict holds one
  binding per key). A finite float is given by its exact value.
\<close>

datatype pyfloat = Finite rat | NaN | Infinity bool

datatype json =
    JNull
  | JBool bool
  | JInt int
  | JFloat pyfloat
  | JStr string
  | JArr "json list"
  | JObj "(string \<times> json) list"

type_synonym dict = "(string \<times> json) list"

text \<open>\<^verbatim>\<open>d.get(key)\<close> and \<^verbatim>\<open>d.get(key, default)\<close>.\<close>

definition dict_get :: "dict \<Rightarrow> string \<Rightarrow> json \<Rightarrow> json" where
  "dict_get d k dflt = (case map_of d k of None \<Rightarrow> dflt | Some v \<Rightarrow> v)"

text \<open>
  \<^verbatim>\<open>value == n\<close> for an integer literal \<open>n\<close>: Python compares numbers by value, so
  \<^verbatim>\<open>200.0 == 200\<close> and \<^verbatim>\<open>True == 1\<close> hold; a non-number never equals a number.
\<close>

fun py_eq_int :: "json \<Rightarrow> int \<Rightarrow> bool" where
  "py_eq_int (JInt i) n = (i = n)"
| "py_eq_int (JBool b) n = ((if b then 1 else 0) = n)"
| "py_eq_int (JFloat (Finite q)) n = (q = of_int n)"
| "py_eq_int _ n = False"

text \<open>Truth value of a JSON value in a condition (\<^verbatim>\<open>if value:\<close>).\<close>

fun truthy :: "json \<Rightarrow> bool" where
  "truthy JNull = False"
| "truthy (JBool b) = b"
| "truthy (JInt i) = (i \<noteq> 0)"
| "truthy (JFloat (Finite q)) = (q \<noteq> 0)"
| "truthy (JFloat _) = True"
| "truthy (JStr s) = (s \<noteq> [])"
| "truthy (JArr xs) = (xs \<noteq> [])"
| "truthy (JObj d) = (d \<noteq> [])"

text \<open>\<^verbatim>\<open>str(n)\<close> for an integer: decimal digits, with a minus sign when negative.\<close>

definition digit_char :: "nat \<Rightarrow> char" where
  "digit_char d = char_of (48 + d)"

function str_nat :: "nat \<Rightarrow> string" where
  "str_nat n = (if n < 10 then [digit_char n] else str_nat (n div 10) @ [digit_char (n mod 10)])"
  by pat_completeness auto
termination
  by (relation "measure (\<lambda>n. n)") auto

declare str_nat.simps [simp del]

definition str_int :: "int \<Rightarrow> string" where
  "str_int i = (if i < 0 then CHR ''-'' # str_nat (nat (- i)) else str_nat (nat i))"

section \<open>Exceptions\<close>

text \<open>
  Every \<^verbatim>\<open>raise\<close> is a value. \<open>TimeoutError\<close> is \<^verbatim>\<open>asyncio.TimeoutError\<close>, the one class
  the clients catch by name; \<open>Exception m\<close> is the plain \<^verbatim>\<open>Exception(m)\<close> the clients
  raise themselves; \<open>HTTPException status detail\<close> is FastAPI's; \<open>SubstrateError cls m\<close>
  is whatever the boto3 \<^verbatim>\<open>invoke\<close> call raises (class name and message); the others are
  raised by the Python runtime and by pydantic.
\<close>

datatype exn =
    TimeoutError
  | Exception string
  | HTTPException int string
  | SubstrateError string string
  | JSONDecodeError
  | TypeError
  | AttributeError
  | KeyError
  | ValueError
  | ValidationError

section \<open>Domain models\<close>

record datetime =
  year :: int
  month :: int
  day :: int
  hour :: int
  minute :: int
  second :: int
  microsecond :: int
  utcoffset :: "int option"

text \<open>
  \<^verbatim>\<open>RedditComment\<close> and \<^verbatim>\<open>FilteredPost\<close> of the reddit service. \<open>url\<close> holds the text
  \<^verbatim>\<open>str(post.url)\<close> of the validated URL.
\<close>

record RedditComment =
  id_field :: string
  author :: string
  body :: string
  score :: int
  created_at :: datetime
  is_submitter :: bool

record FilteredPost =
  source :: string
  subreddit :: string
  title :: string
  url :: string
  author :: string
  score :: int
  comments :: int
  top_comments :: "RedditComment list"
  created_at :: datetime
  normalized_score :: pyfloat
  fetched_at :: "datetime option"
  post_text :: string

text \<open>
  The keyword arguments of \<^verbatim>\<open>RedditComment(**comment_data)\<close> and
  \<^verbatim>\<open>FilteredPost(**post_data)\<close>: values of the parsed response, except where the client
  has stored a datetime or a list of comment objects in the dict.
\<close>

datatype kwarg = Json json | Datetime datetime | Comments "RedditComment list"

text \<open>\<^verbatim>\<open>StorySummaryCreate\<close> and \<^verbatim>\<open>StorySummary\<close> of the summarizer service.\<close>

record StorySummaryCreate =
  post_id :: int
  title :: string
  summary :: string
  generated_story :: string
  model_used :: string
  generation_metadata :: "dict option"

record StorySummary = StorySummaryCreate +
  id_field :: int
  created_at :: datetime

section \<open>Library behaviour taken as given\<close>

text \<open>
  What the standard library and pydantic compute is a parameter of the model: the JSON
  parser and printer, \<^verbatim>\<open>repr\<close> of a value, \<^verbatim>\<open>str\<close> of a library exception, pydantic's
  conversion of a value that does not already have the declared type of a field, its
  parsing of a datetime field, the clock read by \<^verbatim>\<open>datetime.utcnow\<close>,
  \<^verbatim>\<open>datetime.isoformat\<close> and \<^verbatim>\<open>datetime.fromisoformat\<close>, and pydantic's validation of
  the keyword arguments of a comment and of a post. \<open>None\<close> stands for the library
  raising.
\<close>

record runtime =
  json_loads :: "string \<Rightarrow> json option"
  json_dumps :: "json \<Rightarrow> string"
  py_repr :: "json \<Rightarrow> string"
  lib_str :: "exn \<Rightarrow> string"
  lax_int :: "json \<Rightarrow> int option"
  lax_str :: "json \<Rightarrow> string option"
  lax_dict :: "json \<Rightarrow> dict option option"
  parse_datetime :: "json \<Rightarrow> datetime option"
  utcnow :: datetime
  isoformat :: "datetime \<Rightarrow> string"
  fromisoformat :: "string \<Rightarrow> datetime option"
  RedditComment_init :: "(string \<times> kwarg) list \<Rightarrow> RedditComment option"
  FilteredPost_init :: "(string \<times> kwarg) list \<Rightarrow> FilteredPost option"

text \<open>\<^verbatim>\<open>str(e)\<close> of a caught exception.\<close>

definition str_exc :: "runtime \<Rightarrow> exn \<Rightarrow> string" where
  "str_exc rt e = (case e of Exception m \<Rightarrow> m | SubstrateError c m \<Rightarrow> m | _ \<Rightarrow> lib_str rt e)"

text \<open>A value interpolated into an f-string: a string as it is, anything else by its repr.\<close>

definition format_value :: "runtime \<Rightarrow> json \<Rightarrow> string" where
  "format_value rt v = (case v of JStr s \<Rightarrow> s | _ \<Rightarrow> py_repr rt v)"

subsection \<open>Construction of a StorySummary from keyword arguments\<close>

text \<open>
  \<^verbatim>\<open>StorySummary(**body)\<close>: each declared field is read from the dict. A required field
  that is missing fails validation; a value of the declared type is taken as it is; any
  other value goes through pydantic's conversion. \<open>generation_metadata\<close> defaults to
  \<^verbatim>\<open>None\<close> and \<open>created_at\<close> to the clock; keys that are not fields are ignored.
\<close>

definition field_int :: "runtime \<Rightarrow> dict \<Rightarrow> string \<Rightarrow> int option" where
  "field_int rt d k =
     (case map_of d k of None \<Rightarrow> None | Some (JInt i) \<Rightarrow> Some i | Some v \<Rightarrow> lax_int rt v)"

definition field_str :: "runtime \<Rightarrow> dict \<Rightarrow> string \<Rightarrow> string option" where
  "field_str rt d k =
     (case map_of d k of None \<Rightarrow> None | Some (JStr s) \<Rightarrow> Some s | Some v \<Rightarrow> lax_str rt v)"

definition field_optional_dict :: "runtime \<Rightarrow> dict \<Rightarrow> string \<Rightarrow> dict option option" where
  "field_optional_dict rt d k =
     (case map_of d k of
        None \<Rightarrow> Some None
      | Some JNull \<Rightarrow> Some None
      | Some (JObj m) \<Rightarrow> Some (Some m)
      | Some v \<Rightarrow> lax_dict rt v)"

definition field_datetime_default_now :: "runtime \<Rightarrow> dict \<Rightarrow> string \<Rightarrow> datetime option" where
  "field_datetime_default_now rt d k =
     (case map_of d k of None \<Rightarrow> Some (utcnow rt) | Some v \<Rightarrow> parse_datetime rt v)"

definition StorySummary_validate :: "runtime \<Rightarrow> dict \<Rightarrow> StorySummary option" where
  "StorySummary_validate rt d = do {
     p \<leftarrow> field_int rt d ''post_id'';
     t \<leftarrow> field_str rt d ''title'';
     s \<leftarrow> field_str rt d ''summary'';
     g \<leftarrow> field_str rt d ''generated_story'';
     m \<leftarrow> field_str rt d ''model_used'';
     gm \<leftarrow> field_optional_dict rt d ''generation_metadata'';
     i \<leftarrow> field_int rt d ''id'';
     c \<leftarrow> field_datetime_default_now rt d ''created_at'';
     Some \<lparr>post_id = p, title = t, summary = s, generated_story = g, model_used = m,
            generation_metadata = gm, id_field = i, created_at = c\<rparr>
   }"

text \<open>\<^verbatim>\<open>StorySummary(**body)\<close>: unpacking anything but a dict is a \<^verbatim>\<open>TypeError\<close>.\<close>

definition StorySummary_init :: "runtime \<Rightarrow> json \<Rightarrow> exn + StorySummary" where
  "StorySummary_init rt kwargs =
     (case kwargs of
        JObj d \<Rightarrow> (case StorySummary_validate rt d of None \<Rightarrow> Inl ValidationError | Some s \<Rightarrow> Inr s)
      | _ \<Rightarrow> Inl TypeError)"

section \<open>The invocation substrate\<close>

text \<open>
  \<^verbatim>\<open>lambda_client.invoke(FunctionName=..., InvocationType='RequestResponse', Payload=...)\<close>
  blocks, and after \<open>elapsed\<close> seconds either raises or returns a response whose
  \<^verbatim>\<open>Payload\<close> reads as the given text. The substrate is a parameter
  \<open>invoke function_name payload\<close> of every client operation.
\<close>

record invocation =
  elapsed :: rat
  outcome :: "exn + string"

type_synonym substrate = "string \<Rightarrow> string \<Rightarrow> invocation"

text \<open>
  \<^verbatim>\<open>await asyncio.wait_for(loop.run_in_executor(None, call), timeout=t)\<close>: the result of
  the call if it completes within \<open>t\<close> seconds, \<^verbatim>\<open>asyncio.TimeoutError\<close> otherwise.
\<close>

definition wait_for :: "invocation \<Rightarrow> rat \<Rightarrow> exn + string" where
  "wait_for call timeout = (if timeout < elapsed call then Inl TimeoutError else outcome call)"

definition data_service_function_name :: string where
  "data_service_function_name = ''data-service-lambda''"

definition timeout_seconds :: rat where
  "timeout_seconds = 30"

text \<open>
  \<^verbatim>\<open>response_payload = json.loads(response['Payload'].read())\<close> followed by the first
  \<^verbatim>\<open>response_payload.get(...)\<close>: text that is not JSON raises \<^verbatim>\<open>JSONDecodeError\<close>, and a
  parsed value that is not a dict has no \<^verbatim>\<open>get\<close>.
\<close>

definition response_dict :: "runtime \<Rightarrow> string \<Rightarrow> exn + dict" where
  "response_dict rt raw =
     (case json_loads rt raw of
        None \<Rightarrow> Inl JSONDecodeError
      | Some (JObj d) \<Rightarrow> Inr d
      | Some _ \<Rightarrow> Inl AttributeError)"

text \<open>\<^verbatim>\<open>response_payload.get('statusCode') == n\<close>.\<close>

definition status_is :: "dict \<Rightarrow> int \<Rightarrow> bool" where
  "status_is d n = py_eq_int (dict_get d ''statusCode'' JNull) n"

text \<open>\<^verbatim>\<open>json.loads(value)\<close> of a value taken from the response: only text can be parsed.\<close>

definition loads_value :: "runtime \<Rightarrow> json \<Rightarrow> exn + json" where
  "loads_value rt v =
     (case v of
        JStr s \<Rightarrow> (case json_loads rt s of None \<Rightarrow> Inl JSONDecodeError | Some b \<Rightarrow> Inr b)
      | _ \<Rightarrow> Inl TypeError)"

section \<open>The request envelope\<close>

text \<open>
  Every operation writes out the same API-Gateway proxy event as a dict literal. The
  literals differ only in the resource, the path, the method, the query-string and path
  parameters, the user agent and the body; \<open>gateway_event\<close> is that literal with those
  seven places open. \<open>resourcePath\<close> repeats the resource and the context's \<open>path\<close>
  repeats the path in every operation.
\<close>

definition identity_block :: "string \<Rightarrow> json" where
  "identity_block user_agent = JObj [
     (''cognitoIdentityPoolId'', JNull),
     (''accountId'', JNull),
     (''cognitoIdentityId'', JNull),
     (''caller'', JNull),
     (''sourceIp'', JStr ''127.0.0.1''),
     (''principalOrgId'', JNull),
     (''accessKey'', JNull),
     (''cognitoAuthenticationType'', JNull),
     (''cognitoAuthenticationProvider'', JNull),
     (''userArn'', JNull),
     (''userAgent'', JStr user_agent),
     (''user'', JNull)]"

definition request_context :: "string \<Rightarrow> string \<Rightarrow> string \<Rightarrow> string \<Rightarrow> json" where
  "request_context resource method path user_agent = JObj [
     (''resourceId'', JStr ''test''),
     (''resourcePath'', JStr resource),
     (''httpMethod'', JStr method),
     (''extendedRequestId'', JStr ''test''),
     (''requestTime'', JStr ''01/Jan/2024:00:00:00 +0000''),
     (''path'', JStr path),
     (''accountId'', JStr ''565393069809''),
     (''protocol'', JStr ''HTTP/1.1''),
     (''stage'', JStr ''test''),
     (''domainPrefix'', JStr ''test''),
     (''requestTimeEpoch'', JInt 1704067200000),
     (''requestId'', JStr ''test''),
     (''identity'', identity_block user_agent),
     (''domainName'', JStr ''test.execute-api.us-east-1.amazonaws.com''),
     (''apiId'', JStr ''test'')]"

definition gateway_event ::
  "string \<Rightarrow> string \<Rightarrow> string \<Rightarrow> json \<Rightarrow> json \<Rightarrow> string \<Rightarrow> json \<Rightarrow> json" where
  "gateway_event resource path method query path_params user_agent body_value = JObj [
     (''resource'', JStr resource),
     (''path'', JStr path),
     (''httpMethod'', JStr method),
     (''headers'', JObj [(''Accept'', JStr ''application/json''),
                         (''Content-Type'', JStr ''application/json'')]),
     (''multiValueHeaders'', JObj []),
     (''queryStringParameters'', query),
     (''multiValueQueryStringParameters'', JNull),
     (''pathParameters'', path_params),
     (''stageVariables'', JNull),
     (''requestContext'', request_context resource method path user_agent),
     (''body'', body_value),
     (''isBase64Encoded'', JBool False)]"

section \<open>The summarizer service's DataServiceLambdaClient\<close>

definition summarizer_agent :: string where
  "summarizer_agent = ''summarizer-lambda''"

subsection \<open>get_story_summary_by_post_id\<close>

definition get_story_summary_by_post_id_payload :: "int \<Rightarrow> json" where
  "get_story_summary_by_post_id_payload pid =
     gateway_event ''/api/v1/story-summaries/by-post/{post_id}''
       (''/api/v1/story-summaries/by-post/'' @ str_int pid) ''GET''
       JNull (JObj [(''post_id'', JStr (str_int pid))]) summarizer_agent JNull"

text \<open>The body of the \<^verbatim>\<open>try\<close> block.\<close>

definition get_story_summary_by_post_id_try ::
  "runtime \<Rightarrow> substrate \<Rightarrow> int \<Rightarrow> exn + StorySummary option" where
  "get_story_summary_by_post_id_try rt invoke pid =
     (case wait_for (invoke data_service_function_name
                      (json_dumps rt (get_story_summary_by_post_id_payload pid)))
             timeout_seconds of
        Inl e \<Rightarrow> Inl e
      | Inr raw \<Rightarrow>
          (case response_dict rt raw of
             Inl e \<Rightarrow> Inl e
           | Inr response_payload \<Rightarrow>
               if status_is response_payload 200 then
                 (case loads_value rt (dict_get response_payload ''body'' (JStr ''{}'')) of
                    Inl e \<Rightarrow> Inl e
                  | Inr parsed_body \<Rightarrow>
                      (case StorySummary_init rt parsed_body of Inl e \<Rightarrow> Inl e | Inr s \<Rightarrow> Inr (Some s)))
               else if status_is response_payload 404 then Inr None
               else Inr None))"

text \<open>
  The whole method: \<^verbatim>\<open>except asyncio.TimeoutError: return None\<close>, then
  \<^verbatim>\<open>except Exception: return None\<close>.
\<close>

definition get_story_summary_by_post_id ::
  "runtime \<Rightarrow> substrate \<Rightarrow> int \<Rightarrow> exn + StorySummary option" where
  "get_story_summary_by_post_id rt invoke pid =
     (case get_story_summary_by_post_id_try rt invoke pid of
        Inl TimeoutError \<Rightarrow> Inr None
      | Inl e \<Rightarrow> Inr None
      | Inr r \<Rightarrow> Inr r)"

subsection \<open>get_story_summary_by_id\<close>

definition get_story_summary_by_id_payload :: "int \<Rightarrow> json" where
  "get_story_summary_by_id_payload summary_id =
     gateway_event ''/api/v1/story-summaries/{summary_id}''
       (''/api/v1/story-summaries/'' @ str_int summary_id) ''GET''
       JNull (JObj [(''summary_id'', JStr (str_int summary_id))]) summarizer_agent JNull"

definition get_story_summary_by_id_try ::
  "runtime \<Rightarrow> substrate \<Rightarrow> int \<Rightarrow> exn + StorySummary option" where
  "get_story_summary_by_id_try rt invoke summary_id =
     (case wait_for (invoke data_service_function_name
                      (json_dumps rt (get_story_summary_by_id_payload summary_id)))
             timeout_seconds of
        Inl e \<Rightarrow> Inl e
      | Inr raw \<Rightarrow>
          (case response_dict rt raw of
             Inl e \<Rightarrow> Inl e
           | Inr response_payload \<Rightarrow>
               if status_is response_payload 200 then
                 (case loads_value rt (dict_get response_payload ''body'' (JStr ''{}'')) of
                    Inl e \<Rightarrow> Inl e
                  | Inr parsed_body \<Rightarrow>
                      (case StorySummary_init rt parsed_body of Inl e \<Rightarrow> Inl e | Inr s \<Rightarrow> Inr (Some s)))
               else if status_is response_payload 404 then Inr None
               else Inr None))"

definition get_story_summary_by_id ::
  "runtime \<Rightarrow> substrate \<Rightarrow> int \<Rightarrow> exn + StorySummary option" where
  "get_story_summary_by_id rt invoke summary_id =
     (case get_story_summary_by_id_try rt invoke summary_id of
        Inl TimeoutError \<Rightarrow> Inr None
      | Inl e \<Rightarrow> Inr None
      | Inr r \<Rightarrow> Inr r)"

subsection \<open>create_story_summary\<close>

definition summary_data :: "StorySummaryCreate \<Rightarrow> json" where
  "summary_data s = JObj [
     (''post_id'', JInt (post_id s)),
     (''title'', JStr (title s)),
     (''summary'', JStr (summary s)),
     (''generated_story'', JStr (generated_story s)),
     (''model_used'', JStr (model_used s)),
     (''generation_metadata'',
        (case generation_metadata s of None \<Rightarrow> JNull | Some m \<Rightarrow> JObj m))]"

definition create_story_summary_payload :: "runtime \<Rightarrow> StorySummaryCreate \<Rightarrow> json" where
  "create_story_summary_payload rt s =
     gateway_event ''/api/v1/story-summaries'' ''/api/v1/story-summaries'' ''POST''
       JNull JNull summarizer_agent (JStr (json_dumps rt (summary_data s)))"

definition create_story_summary_try ::
  "runtime \<Rightarrow> substrate \<Rightarrow> StorySummaryCreate \<Rightarrow> exn + StorySummary" where
  "create_story_summary_try rt invoke s =
     (case wait_for (invoke data_service_function_name
                      (json_dumps rt (create_story_summary_payload rt s)))
             timeout_seconds of
        Inl e \<Rightarrow> Inl e
      | Inr raw \<Rightarrow>
          (case response_dict rt raw of
             Inl e \<Rightarrow> Inl e
           | Inr response_payload \<Rightarrow>
               if status_is response_payload 200 then
                 (case loads_value rt (dict_get response_payload ''body'' (JStr ''{}'')) of
                    Inl e \<Rightarrow> Inl e
                  | Inr parsed_body \<Rightarrow> StorySummary_init rt parsed_body)
               else
                 Inl (Exception (''Failed to create story summary: '' @
                        format_value rt (dict_get response_payload ''body''
                                           (JStr ''Unknown error''))))))"

text \<open>
  \<^verbatim>\<open>except asyncio.TimeoutError: raise Exception("Timeout calling Data Service Lambda")\<close>,
  then \<^verbatim>\<open>except Exception: raise\<close>.
\<close>

definition create_story_summary ::
  "runtime \<Rightarrow> substrate \<Rightarrow> StorySummaryCreate \<Rightarrow> exn + StorySummary" where
  "create_story_summary rt invoke s =
     (case create_story_summary_try rt invoke s of
        Inl TimeoutError \<Rightarrow> Inl (Exception ''Timeout calling Data Service Lambda'')
      | Inl e \<Rightarrow> Inl e
      | Inr r \<Rightarrow> Inr r)"

subsection \<open>health_check\<close>

definition health_check_payload :: json where
  "health_check_payload =
     gateway_event ''/health'' ''/health'' ''GET'' JNull JNull summarizer_agent JNull"

definition health_check_try :: "runtime \<Rightarrow> substrate \<Rightarrow> exn + json" where
  "health_check_try rt invoke =
     (case wait_for (invoke data_service_function_name (json_dumps rt health_check_payload))
             timeout_seconds of
        Inl e \<Rightarrow> Inl e
      | Inr raw \<Rightarrow>
          (case response_dict rt raw of
             Inl e \<Rightarrow> Inl e
           | Inr response_payload \<Rightarrow>
               if status_is response_payload 200 then
                 Inr (JObj [(''success'', JBool True),
                            (''message'', JStr ''Data Service Lambda is healthy'')])
               else
                 Inr (JObj [(''success'', JBool False),
                            (''error'', dict_get response_payload ''body''
                                          (JStr ''Unknown error''))])))"

definition health_check :: "runtime \<Rightarrow> substrate \<Rightarrow> exn + json" where
  "health_check rt invoke =
     (case health_check_try rt invoke of
        Inl TimeoutError \<Rightarrow>
          Inr (JObj [(''success'', JBool False),
                     (''error'', JStr ''Timeout calling Data Service Lambda'')])
      | Inl e \<Rightarrow> Inr (JObj [(''success'', JBool False), (''error'', JStr (str_exc rt e))])
      | Inr r \<Rightarrow> Inr r)"

section \<open>The reddit service's DataServiceLambdaClient\<close>

text \<open>
  This client calls \<^verbatim>\<open>self.lambda_client.invoke(...)\<close> directly: it waits for the
  substrate however long it takes, and the result is the substrate's outcome.
\<close>

definition reddit_agent :: string where
  "reddit_agent = ''reddit-fetcher-lambda''"

subsection \<open>save_reddit_posts\<close>

definition comment_dict :: "runtime \<Rightarrow> RedditComment \<Rightarrow> json" where
  "comment_dict rt c = JObj [
     (''author'', JStr (RedditComment.author c)),
     (''body'', JStr (RedditComment.body c)),
     (''score'', JInt (RedditComment.score c)),
     (''created_at'', JStr (isoformat rt (RedditComment.created_at c)))]"

definition post_dict :: "runtime \<Rightarrow> FilteredPost \<Rightarrow> json" where
  "post_dict rt p = JObj ([
     (''source'', JStr (source p)),
     (''subreddit'', JStr (subreddit p)),
     (''title'', JStr (FilteredPost.title p)),
     (''url'', JStr (url p)),
     (''author'', JStr (FilteredPost.author p)),
     (''score'', JInt (FilteredPost.score p)),
     (''comments'', JInt (comments p)),
     (''normalized_score'', JFloat (normalized_score p)),
     (''created_at'', JStr (isoformat rt (FilteredPost.created_at p))),
     (''post_text'', JStr (post_text p))]
     @ (if top_comments p \<noteq> []
        then [(''top_comments'', JArr (map (comment_dict rt) (top_comments p)))]
        else []))"

definition save_reddit_posts_payload :: "runtime \<Rightarrow> FilteredPost list \<Rightarrow> json" where
  "save_reddit_posts_payload rt posts =
     gateway_event ''/api/v1/reddit/posts'' ''/api/v1/reddit/posts'' ''POST''
       JNull JNull reddit_agent
       (JStr (json_dumps rt (JObj [(''posts'', JArr (map (post_dict rt) posts))])))"

definition save_reddit_posts_try ::
  "runtime \<Rightarrow> substrate \<Rightarrow> FilteredPost list \<Rightarrow> exn + json" where
  "save_reddit_posts_try rt invoke posts =
     (case outcome (invoke data_service_function_name
                      (json_dumps rt (save_reddit_posts_payload rt posts))) of
        Inl e \<Rightarrow> Inl e
      | Inr raw \<Rightarrow>
          (case response_dict rt raw of
             Inl e \<Rightarrow> Inl e
           | Inr response_payload \<Rightarrow>
               if status_is response_payload 200 then
                 Inr (JObj [(''success'', JBool True),
                            (''message'', dict_get response_payload ''body'' (JStr []))])
               else
                 Inr (JObj [(''success'', JBool False),
                            (''error'', dict_get response_payload ''body''
                                          (JStr ''Unknown error''))])))"

text \<open>\<^verbatim>\<open>except Exception as e: return {"success": False, "error": str(e)}\<close>.\<close>

definition save_reddit_posts ::
  "runtime \<Rightarrow> substrate \<Rightarrow> FilteredPost list \<Rightarrow> exn + json" where
  "save_reddit_posts rt invoke posts =
     (case save_reddit_posts_try rt invoke posts of
        Inl e \<Rightarrow> Inr (JObj [(''success'', JBool False), (''error'', JStr (str_exc rt e))])
      | Inr r \<Rightarrow> Inr r)"

subsection \<open>get_reddit_posts\<close>

text \<open>
  \<^verbatim>\<open>query_params = f"?limit={limit}"\<close>, extended by \<^verbatim>\<open>f"&subreddit={subreddit}"\<close>
  when \<^verbatim>\<open>subreddit\<close> is neither \<^verbatim>\<open>None\<close> nor empty.
\<close>

definition query_params :: "int \<Rightarrow> string option \<Rightarrow> string" where
  "query_params limit sub =
     ''?limit='' @ str_int limit @
     (case sub of
        None \<Rightarrow> []
      | Some s \<Rightarrow> if s \<noteq> [] then ''&subreddit='' @ s else [])"

definition query_string_parameters :: "int \<Rightarrow> string option \<Rightarrow> json" where
  "query_string_parameters limit sub =
     (case sub of
        None \<Rightarrow> JObj [(''limit'', JStr (str_int limit))]
      | Some s \<Rightarrow>
          if s \<noteq> [] then JObj [(''limit'', JStr (str_int limit)), (''subreddit'', JStr s)]
          else JObj [(''limit'', JStr (str_int limit))])"

definition get_reddit_posts_payload :: "int \<Rightarrow> string option \<Rightarrow> json" where
  "get_reddit_posts_payload limit sub =
     gateway_event ''/api/v1/reddit/posts''
       (''/api/v1/reddit/posts'' @ query_params limit sub) ''GET''
       (query_string_parameters limit sub) JNull reddit_agent JNull"

text \<open>
  \<^verbatim>\<open>for x in value\<close>: a list yields its elements, a dict its keys, a string its
  characters; nothing else can be iterated.
\<close>

definition py_iter :: "json \<Rightarrow> exn + json list" where
  "py_iter v =
     (case v of
        JArr xs \<Rightarrow> Inr xs
      | JObj d \<Rightarrow> Inr (map (\<lambda>kv. JStr (fst kv)) d)
      | JStr s \<Rightarrow> Inr (map (\<lambda>c. JStr [c]) s)
      | _ \<Rightarrow> Inl TypeError)"

text \<open>A loop body that may raise, run over a list in order; the first raise ends the loop.\<close>

fun for_each :: "('a \<Rightarrow> exn + 'b) \<Rightarrow> 'a list \<Rightarrow> exn + 'b list" where
  "for_each f [] = Inr []"
| "for_each f (x # xs) =
     (case f x of
        Inl e \<Rightarrow> Inl e
      | Inr y \<Rightarrow> (case for_each f xs of Inl e \<Rightarrow> Inl e | Inr ys \<Rightarrow> Inr (y # ys)))"

text \<open>\<^verbatim>\<open>datetime.fromisoformat(value)\<close>: a \<^verbatim>\<open>TypeError\<close> unless the value is a string.\<close>

definition fromisoformat_value :: "runtime \<Rightarrow> json \<Rightarrow> exn + datetime" where
  "fromisoformat_value rt v =
     (case v of
        JStr s \<Rightarrow> (case fromisoformat rt s of None \<Rightarrow> Inl ValueError | Some dt \<Rightarrow> Inr dt)
      | _ \<Rightarrow> Inl TypeError)"

definition as_kwargs :: "dict \<Rightarrow> (string \<times> kwarg) list" where
  "as_kwargs d = map (\<lambda>kv. (fst kv, Json (snd kv))) d"

text \<open>
  The inner loop body:
  \<^verbatim>\<open>comment_data['created_at'] = datetime.fromisoformat(comment_data['created_at'])\<close>, then
  \<^verbatim>\<open>RedditComment(**comment_data)\<close>. Subscripting anything but a dict with a string is a
  \<^verbatim>\<open>TypeError\<close>.
\<close>

definition hydrate_comment :: "runtime \<Rightarrow> json \<Rightarrow> exn + RedditComment" where
  "hydrate_comment rt comment_data =
     (case comment_data of
        JObj d \<Rightarrow>
          (case map_of d ''created_at'' of
             None \<Rightarrow> Inl KeyError
           | Some v \<Rightarrow>
               (case fromisoformat_value rt v of
                  Inl e \<Rightarrow> Inl e
                | Inr dt \<Rightarrow>
                    (case RedditComment_init rt
                            (AList.update ''created_at'' (Datetime dt) (as_kwargs d)) of
                       None \<Rightarrow> Inl ValidationError
                     | Some c \<Rightarrow> Inr c)))
      | _ \<Rightarrow> Inl TypeError)"

text \<open>The outer loop body, ending in \<^verbatim>\<open>FilteredPost(**post_data)\<close>.\<close>

definition hydrate_post :: "runtime \<Rightarrow> json \<Rightarrow> exn + FilteredPost" where
  "hydrate_post rt post_data =
     (case post_data of
        JObj d \<Rightarrow>
          (case map_of d ''created_at'' of
             None \<Rightarrow> Inl KeyError
           | Some v \<Rightarrow>
               (case fromisoformat_value rt v of
                  Inl e \<Rightarrow> Inl e
                | Inr dt \<Rightarrow>
                    (let kw = AList.update ''created_at'' (Datetime dt) (as_kwargs d);
                         tc = dict_get d ''top_comments'' JNull
                     in if truthy tc then
                          (case py_iter tc of
                             Inl e \<Rightarrow> Inl e
                           | Inr items \<Rightarrow>
                               (case for_each (hydrate_comment rt) items of
                                  Inl e \<Rightarrow> Inl e
                                | Inr cs \<Rightarrow>
                                    (case FilteredPost_init rt
                                            (AList.update ''top_comments'' (Comments cs) kw) of
                                       None \<Rightarrow> Inl ValidationError
                                     | Some p \<Rightarrow> Inr p)))
                        else
                          (case FilteredPost_init rt kw of
                             None \<Rightarrow> Inl ValidationError
                           | Some p \<Rightarrow> Inr p))))
      | _ \<Rightarrow> Inl TypeError)"

definition get_reddit_posts_try ::
  "runtime \<Rightarrow> substrate \<Rightarrow> int \<Rightarrow> string option \<Rightarrow> exn + FilteredPost list" where
  "get_reddit_posts_try rt invoke limit sub =
     (case outcome (invoke data_service_function_name
                      (json_dumps rt (get_reddit_posts_payload limit sub))) of
        Inl e \<Rightarrow> Inl e
      | Inr raw \<Rightarrow>
          (case response_dict rt raw of
             Inl e \<Rightarrow> Inl e
           | Inr response_payload \<Rightarrow>
               if status_is response_payload 200 then
                 (case loads_value rt (dict_get response_payload ''body'' (JStr ''[]'')) of
                    Inl e \<Rightarrow> Inl e
                  | Inr posts_data \<Rightarrow>
                      (case py_iter posts_data of
                         Inl e \<Rightarrow> Inl e
                       | Inr items \<Rightarrow> for_each (hydrate_post rt) items))
               else Inr []))"

text \<open>\<^verbatim>\<open>except Exception: return []\<close>.\<close>

definition get_reddit_posts ::
  "runtime \<Rightarrow> substrate \<Rightarrow> int \<Rightarrow> string option \<Rightarrow> exn + FilteredPost list" where
  "get_reddit_posts rt invoke limit sub =
     (case get_reddit_posts_try rt invoke limit sub of
        Inl e \<Rightarrow> Inr []
      | Inr posts \<Rightarrow> Inr posts)"

section \<open>The summarizer route GET /summary/{post_id}\<close>

text \<open>
  The \<^verbatim>\<open>try\<close> block of \<open>get_summary\<close>: the adapter is called, and a falsy result raises
  \<^verbatim>\<open>HTTPException(status_code=404, detail="Summary not found")\<close>.
\<close>

definition get_summary_try :: "runtime \<Rightarrow> substrate \<Rightarrow> int \<Rightarrow> exn + StorySummary" where
  "get_summary_try rt invoke pid =
     (case get_story_summary_by_post_id rt invoke pid of
        Inl e \<Rightarrow> Inl e
      | Inr None \<Rightarrow> Inl (HTTPException 404 ''Summary not found'')
      | Inr (Some s) \<Rightarrow> Inr s)"

text \<open>
  The handler: \<^verbatim>\<open>except Exception as e\<close> around the whole block raises
  \<^verbatim>\<open>HTTPException(status_code=500, detail=f"Failed to get summary: {str(e)}")\<close>.
  \<^verbatim>\<open>HTTPException\<close> is a subclass of \<^verbatim>\<open>Exception\<close>, so the handler catches what the block
  raised itself.
\<close>

definition get_summary :: "runtime \<Rightarrow> substrate \<Rightarrow> int \<Rightarrow> exn + StorySummary" where
  "get_summary rt invoke pid =
     (case get_summary_try rt invoke pid of
        Inl e \<Rightarrow> Inl (HTTPException 500 (''Failed to get summary: '' @ str_exc rt e))
      | Inr s \<Rightarrow> Inr s)"

text \<open>
  The status of the response FastAPI sends: 200 for a returned value, the exception's
  status for an \<^verbatim>\<open>HTTPException\<close>, 500 for any other exception.
\<close>

definition response_status :: "exn + 'a \<Rightarrow> int" where
  "response_status r =
     (case r of Inr v \<Rightarrow> 200 | Inl (HTTPException status detail) \<Rightarrow> status | Inl e \<Rightarrow> 500)"

section \<open>SummarizerService\<close>

text \<open>
  The service is constructed with its collaborators: the lambda client, the HuggingFace
  client and its configuration object. A call to a collaborator may change the world
  outside (a record is stored, the clock moves), so each takes the world and returns it.
  The three configuration methods are those \<open>generate_summary\<close> calls on
  \<^verbatim>\<open>self.config\<close>.
\<close>

record 'w collaborators =
  client_get_story_summary_by_post_id :: "int \<Rightarrow> 'w \<Rightarrow> (exn + StorySummary option) \<times> 'w"
  client_create_story_summary :: "StorySummaryCreate \<Rightarrow> 'w \<Rightarrow> (exn + StorySummary) \<times> 'w"
  client_generate_text :: "string \<Rightarrow> string option \<Rightarrow> json \<Rightarrow> 'w \<Rightarrow> (exn + json) \<times> 'w"
  clock_utcnow :: "'w \<Rightarrow> datetime \<times> 'w"
  config_get_story_prompt :: "string \<Rightarrow> string \<Rightarrow> string \<Rightarrow> exn + string"
  config_get_summary_prompt :: "string \<Rightarrow> string \<Rightarrow> string \<Rightarrow> exn + string"
  config_get_model_params :: "string \<Rightarrow> exn + json"

text \<open>The calls a run makes on the two clients, in order.\<close>

datatype call =
    GetStorySummaryByPostId int
  | GenerateText string "string option" json
  | CreateStorySummary StorySummaryCreate

text \<open>
  A step of a method runs in a world with the calls made so far, and either raises or
  returns a value. \<open>then_do\<close> runs one step after another; a raise ends the run.
\<close>

type_synonym ('a, 'w) action = "'w \<times> call list \<Rightarrow> (exn + 'a) \<times> 'w \<times> call list"

definition pure_step :: "exn + 'a \<Rightarrow> ('a, 'w) action" where
  "pure_step r st = (r, st)"

definition then_do :: "('a, 'w) action \<Rightarrow> ('a \<Rightarrow> ('b, 'w) action) \<Rightarrow> ('b, 'w) action" where
  "then_do m f st = (case m st of (Inl e, st') \<Rightarrow> (Inl e, st') | (Inr x, st') \<Rightarrow> f x st')"

definition call_get_story_summary_by_post_id ::
  "'w collaborators \<Rightarrow> int \<Rightarrow> (StorySummary option, 'w) action" where
  "call_get_story_summary_by_post_id c pid st =
     (case client_get_story_summary_by_post_id c pid (fst st) of
        (r, w') \<Rightarrow> (r, w', snd st @ [GetStorySummaryByPostId pid]))"

definition call_create_story_summary ::
  "'w collaborators \<Rightarrow> StorySummaryCreate \<Rightarrow> (StorySummary, 'w) action" where
  "call_create_story_summary c s st =
     (case client_create_story_summary c s (fst st) of
        (r, w') \<Rightarrow> (r, w', snd st @ [CreateStorySummary s]))"

definition call_generate_text ::
  "'w collaborators \<Rightarrow> string \<Rightarrow> string option \<Rightarrow> json \<Rightarrow> (json, 'w) action" where
  "call_generate_text c prompt model_id parameters st =
     (case client_generate_text c prompt model_id parameters (fst st) of
        (r, w') \<Rightarrow> (r, w', snd st @ [GenerateText prompt model_id parameters]))"

definition read_utcnow :: "'w collaborators \<Rightarrow> (datetime, 'w) action" where
  "read_utcnow c st = (case clock_utcnow c (fst st) of (t, w') \<Rightarrow> (Inr t, w', snd st))"

definition DEFAULT_MODEL :: string where
  "DEFAULT_MODEL = ''google/pegasus-large''"

text \<open>\<^verbatim>\<open>model_id or self.config.DEFAULT_MODEL\<close>.\<close>

definition model_or_default :: "string option \<Rightarrow> string" where
  "model_or_default model_id =
     (case model_id of None \<Rightarrow> DEFAULT_MODEL | Some m \<Rightarrow> if m \<noteq> [] then m else DEFAULT_MODEL)"

text \<open>
  \<open>_prepare_comments_text\<close>: the body of the first comment, which must be a dict to have
  a \<^verbatim>\<open>get\<close>.
\<close>

definition prepare_comments_text :: "runtime \<Rightarrow> json list \<Rightarrow> exn + string" where
  "prepare_comments_text rt cs =
     (case cs of
        [] \<Rightarrow> Inr ''No comments available.''
      | top_comment # rest \<Rightarrow>
          (case top_comment of
             JObj d \<Rightarrow> Inr (''Top comment: '' @ format_value rt (dict_get d ''body'' (JStr [])))
           | _ \<Rightarrow> Inl AttributeError))"

text \<open>
  \<^verbatim>\<open>StorySummaryCreate(post_id=..., title=..., summary=..., generated_story=...,
  model_used=..., generation_metadata=...)\<close> where the summary and the story are what
  \<open>generate_text\<close> returned: a string is taken as it is, anything else goes through
  pydantic's conversion.
\<close>

definition validate_str :: "runtime \<Rightarrow> json \<Rightarrow> string option" where
  "validate_str rt v = (case v of JStr s \<Rightarrow> Some s | _ \<Rightarrow> lax_str rt v)"

definition StorySummaryCreate_init ::
  "runtime \<Rightarrow> int \<Rightarrow> string \<Rightarrow> json \<Rightarrow> json \<Rightarrow> string \<Rightarrow> dict \<Rightarrow> exn + StorySummaryCreate" where
  "StorySummaryCreate_init rt pid ttl summary_text story model metadata =
     (case validate_str rt summary_text of
        None \<Rightarrow> Inl ValidationError
      | Some s \<Rightarrow>
          (case validate_str rt story of
             None \<Rightarrow> Inl ValidationError
           | Some g \<Rightarrow>
               Inr \<lparr>post_id = pid, title = ttl, summary = s, generated_story = g,
                    model_used = model, generation_metadata = Some metadata\<rparr>))"

subsection \<open>generate_summary_by_id\<close>

text \<open>The mock post of \<open>generate_summary_by_id\<close> and the two prompts built from it.\<close>

definition mock_title :: "int \<Rightarrow> string" where
  "mock_title pid = ''Mock Post '' @ str_int pid"

definition mock_top_comments :: "json list" where
  "mock_top_comments = [JObj [(''body'', JStr ''Mock comment for testing''),
                              (''author'', JStr ''test_user''),
                              (''score'', JInt 10)]]"

definition mock_story_prompt :: "int \<Rightarrow> string \<Rightarrow> string" where
  "mock_story_prompt pid comments_text =
     ''Title: '' @ mock_title pid @ [CHR 0x0A, CHR 0x0A] @
     ''The developer of Apollo, a popular Reddit app, has released their backend code '' @
     ''on GitHub ('' @ ''https://example.com'' @ '') to counter Reddit's claims. A top community member stated: '' @
     comments_text @ [CHR 0x0A, CHR 0x0A] @
     ''Write a short news article about this situation, focusing on what happened '' @
     ''and the community's reaction.''"

definition mock_summary_prompt :: string where
  "mock_summary_prompt =
     ''Write a brief, clear summary of this situation:'' @ [CHR 0x0A, CHR 0x0A] @
     ''The Apollo app developer published their code to prove their app's efficiency, '' @
     ''countering Reddit's claims. The community reacted strongly, with users expressing '' @
     ''disappointment in Reddit's accusations about API abuse and poor programming.''"

text \<open>The generation parameters; the floats \<open>0.8\<close>, \<open>0.95\<close>, \<open>0.7\<close> and \<open>0.9\<close> exactly.\<close>

definition story_parameters :: json where
  "story_parameters = JObj [
     (''max_length'', JInt 300),
     (''min_length'', JInt 100),
     (''temperature'', JFloat (Finite (3602879701896397 / 4503599627370496))),
     (''top_p'', JFloat (Finite (4278419646001971 / 4503599627370496))),
     (''num_beams'', JInt 4),
     (''no_repeat_ngram_size'', JInt 2)]"

definition summary_parameters :: json where
  "summary_parameters = JObj [
     (''max_length'', JInt 150),
     (''min_length'', JInt 30),
     (''temperature'', JFloat (Finite (3152519739159347 / 4503599627370496))),
     (''top_p'', JFloat (Finite (8106479329266893 / 9007199254740992))),
     (''num_beams'', JInt 4),
     (''no_repeat_ngram_size'', JInt 2)]"

definition mock_metadata :: "runtime \<Rightarrow> int \<Rightarrow> datetime \<Rightarrow> dict" where
  "mock_metadata rt pid generated_at = [
     (''original_title'', JStr (mock_title pid)),
     (''subreddit'', JStr ''test''),
     (''comment_count'', JInt (int (length mock_top_comments))),
     (''post_score'', JInt 100),
     (''generation_timestamp'', JStr (isoformat rt generated_at))]"

text \<open>
  The method: look the summary up and return it if there is one; otherwise build the
  mock post (reading the clock for its \<open>created_at\<close>), generate the story and the
  summary, read the clock again for the metadata, and create the summary. The
  \<^verbatim>\<open>except Exception: ... raise\<close> around the body re-raises what it caught.
\<close>

definition generate_summary_by_id ::
  "'w collaborators \<Rightarrow> runtime \<Rightarrow> int \<Rightarrow> (StorySummary, 'w) action" where
  "generate_summary_by_id c rt pid =
     then_do (call_get_story_summary_by_post_id c pid) (\<lambda>existing_summary.
       case existing_summary of
         Some existing \<Rightarrow> pure_step (Inr existing)
       | None \<Rightarrow>
           then_do (read_utcnow c) (\<lambda>post_created_at.
           then_do (pure_step (prepare_comments_text rt mock_top_comments)) (\<lambda>comments_text.
           then_do (call_generate_text c (mock_story_prompt pid comments_text) None
                      story_parameters) (\<lambda>story.
           then_do (call_generate_text c mock_summary_prompt None summary_parameters)
                   (\<lambda>summary_text.
           then_do (read_utcnow c) (\<lambda>generated_at.
           then_do (pure_step (StorySummaryCreate_init rt pid (''Summary: '' @ mock_title pid)
                                 summary_text story DEFAULT_MODEL
                                 (mock_metadata rt pid generated_at))) (\<lambda>new_summary.
           call_create_story_summary c new_summary)))))))"

subsection \<open>generate_summary\<close>

text \<open>\<^verbatim>\<open>{**params, "max_length": 300}\<close>: only a dict can be unpacked.\<close>

definition with_max_length :: "json \<Rightarrow> exn + json" where
  "with_max_length params =
     (case params of
        JObj d \<Rightarrow> Inr (JObj (AList.update ''max_length'' (JInt 300) d))
      | _ \<Rightarrow> Inl TypeError)"

definition generate_summary ::
  "'w collaborators \<Rightarrow> runtime \<Rightarrow> int \<Rightarrow> string \<Rightarrow> string \<Rightarrow> json list \<Rightarrow> string option
     \<Rightarrow> (StorySummary, 'w) action" where
  "generate_summary c rt pid ttl content cs model_id =
     then_do (call_get_story_summary_by_post_id c pid) (\<lambda>existing_summary.
       case existing_summary of
         Some existing \<Rightarrow> pure_step (Inr existing)
       | None \<Rightarrow>
           then_do (pure_step (prepare_comments_text rt cs)) (\<lambda>comments_text.
           then_do (pure_step (config_get_story_prompt c ttl content comments_text))
                   (\<lambda>story_prompt.
           then_do (pure_step (config_get_model_params c (model_or_default model_id)))
                   (\<lambda>story_params.
           then_do (call_generate_text c story_prompt model_id story_params) (\<lambda>story.
           then_do (pure_step (config_get_summary_prompt c ttl content comments_text))
                   (\<lambda>summary_prompt.
           then_do (pure_step (config_get_model_params c (model_or_default model_id)))
                   (\<lambda>base_params.
           then_do (pure_step (with_max_length base_params)) (\<lambda>summary_params.
           then_do (call_generate_text c summary_prompt model_id summary_params)
                   (\<lambda>summary_text.
           then_do (read_utcnow c) (\<lambda>generated_at.
           then_do (pure_step (config_get_model_params c (model_or_default model_id)))
                   (\<lambda>generation_params.
           then_do (pure_step (StorySummaryCreate_init rt pid (''Summary: '' @ ttl)
                                 summary_text story (model_or_default model_id)
                                 [(''original_title'', JStr ttl),
                                  (''comment_count'', JInt (int (length cs))),
                                  (''generation_timestamp'', JStr (isoformat rt generated_at)),
                                  (''generation_params'', generation_params)]))
                   (\<lambda>new_summary.
           call_create_story_summary c new_summary))))))))))))"

section \<open>Reading an envelope\<close>

text \<open>
  What a receiver finds in a request envelope: a member of a dict by key, and from it the
  path, the query-string parameters and \<^verbatim>\<open>requestContext.requestId\<close>.
\<close>

definition member :: "json \<Rightarrow> string \<Rightarrow> json option" where
  "member v k = (case v of JObj d \<Rightarrow> map_of d k | _ \<Rightarrow> None)"

definition envelope_path :: "json \<Rightarrow> json option" where
  "envelope_path payload = member payload ''path''"

definition envelope_query :: "json \<Rightarrow> string \<Rightarrow> json option" where
  "envelope_query payload k =
     (case member payload ''queryStringParameters'' of None \<Rightarrow> None | Some q \<Rightarrow> member q k)"

definition request_id :: "json \<Rightarrow> json option" where
  "request_id payload =
     (case member payload ''requestContext'' of None \<Rightarrow> None | Some c \<Rightarrow> member c ''requestId'')"

text \<open>
  The JSON object of a stored summary as the data service returns it: the fields of its
  \<^verbatim>\<open>StorySummary\<close> response model in declaration order, \<open>created_at\<close> as text.
\<close>

definition StorySummary_json :: "StorySummary \<Rightarrow> string \<Rightarrow> dict" where
  "StorySummary_json r created_text = [
     (''id'', JInt (StorySummary.id_field r)),
     (''post_id'', JInt (post_id r)),
     (''title'', JStr (StorySummaryCreate.title r)),
     (''summary'', JStr (summary r)),
     (''generated_story'', JStr (generated_story r)),
     (''model_used'', JStr (model_used r)),
     (''generation_metadata'', (case generation_metadata r of None \<Rightarrow> JNull | Some m \<Rightarrow> JObj m)),
     (''created_at'', JStr created_text)]"

section \<open>Stub targets\<close>

text \<open>
  Fixtures for running the clients: a substrate that answers every invocation with a
  fixed result after a fixed time, the response texts of a few targets, and a runtime
  whose parser knows exactly those texts. \<open>dq s\<close> is \<open>s\<close> between double quotes and
  \<open>edq s\<close> is \<open>s\<close> between backslash-escaped double quotes, as inside a JSON string.
\<close>

definition stub_target :: "rat \<Rightarrow> exn + string \<Rightarrow> substrate" where
  "stub_target secs result = (\<lambda>function_name payload. \<lparr>elapsed = secs, outcome = result\<rparr>)"

definition dq :: "string \<Rightarrow> string" where
  "dq s = CHR 0x22 # s @ [CHR 0x22]"

definition edq :: "string \<Rightarrow> string" where
  "edq s = [CHR 0x5C, CHR 0x22] @ s @ [CHR 0x5C, CHR 0x22]"

definition not_found_response :: string where
  "not_found_response = ''{'' @ dq ''statusCode'' @ '': 404}''"

definition boom_body :: string where
  "boom_body = ''{'' @ dq ''error'' @ '': '' @ dq ''boom'' @ ''}''"

definition boom_response :: string where
  "boom_response =
     ''{'' @ dq ''statusCode'' @ '': 500, '' @ dq ''body'' @ '': '' @
     dq (''{'' @ edq ''error'' @ '': '' @ edq ''boom'' @ ''}'') @ ''}''"

definition created_body :: string where
  "created_body =
     ''{'' @ dq ''id'' @ '': 101, '' @ dq ''post_id'' @ '': 7, '' @
     dq ''title'' @ '': '' @ dq ''t'' @ '', '' @
     dq ''summary'' @ '': '' @ dq ''s'' @ '', '' @
     dq ''generated_story'' @ '': '' @ dq ''g'' @ '', '' @
     dq ''model_used'' @ '': '' @ dq ''m'' @ '', '' @
     dq ''generation_metadata'' @ '': null, '' @
     dq ''created_at'' @ '': '' @ dq ''2025-10-06T10:00:00'' @ ''}''"

definition created_response :: string where
  "created_response =
     ''{'' @ dq ''statusCode'' @ '': 200, '' @ dq ''body'' @ '': '' @
     dq (''{'' @ edq ''id'' @ '': 101, '' @ edq ''post_id'' @ '': 7, '' @
         edq ''title'' @ '': '' @ edq ''t'' @ '', '' @
         edq ''summary'' @ '': '' @ edq ''s'' @ '', '' @
         edq ''generated_story'' @ '': '' @ edq ''g'' @ '', '' @
         edq ''model_used'' @ '': '' @ edq ''m'' @ '', '' @
         edq ''generation_metadata'' @ '': null, '' @
         edq ''created_at'' @ '': '' @ edq ''2025-10-06T10:00:00'' @ ''}'') @ ''}''"

definition created_record :: dict where
  "created_record = [
     (''id'', JInt 101),
     (''post_id'', JInt 7),
     (''title'', JStr ''t''),
     (''summary'', JStr ''s''),
     (''generated_story'', JStr ''g''),
     (''model_used'', JStr ''m''),
     (''generation_metadata'', JNull),
     (''created_at'', JStr ''2025-10-06T10:00:00'')]"

definition stub_datetime :: datetime where
  "stub_datetime = \<lparr>year = 2025, month = 10, day = 6, hour = 10, minute = 0, second = 0,
                      microsecond = 0, utcoffset = None\<rparr>"

text \<open>The input of the creation scenario, a post to save, and a target that saved it.\<close>

definition stub_summary_create :: StorySummaryCreate where
  "stub_summary_create = \<lparr>post_id = 7, title = ''t'', summary = ''s'', generated_story = ''g'',
                            model_used = ''m'', generation_metadata = None\<rparr>"

definition stub_post :: FilteredPost where
  "stub_post = \<lparr>source = ''reddit'', subreddit = ''programming'',
                  FilteredPost.title = ''Announcing FastAPI v1.0.0'',
                  url = ''https://reddit.com/r/programming/123'',
                  FilteredPost.author = ''user123'', FilteredPost.score = 100, comments = 50,
                  top_comments = [], FilteredPost.created_at = stub_datetime,
                  normalized_score = Finite 125, fetched_at = None, post_text = []\<rparr>"

definition saved_body :: string where
  "saved_body = ''{'' @ dq ''message'' @ '': '' @ dq ''Successfully saved 1 posts'' @ ''}''"

definition saved_response :: string where
  "saved_response =
     ''{'' @ dq ''statusCode'' @ '': 200, '' @ dq ''body'' @ '': '' @
     dq (''{'' @ edq ''message'' @ '': '' @ edq ''Successfully saved 1 posts'' @ ''}'') @ ''}''"

definition connection_error :: exn where
  "connection_error =
     SubstrateError ''EndpointConnectionError'' ''Could not connect to the endpoint URL''"

definition stub_loads :: "string \<Rightarrow> json option" where
  "stub_loads text =
     (if text = not_found_response then Some (JObj [(''statusCode'', JInt 404)])
      else if text = boom_response
        then Some (JObj [(''statusCode'', JInt 500), (''body'', JStr boom_body)])
      else if text = boom_body then Some (JObj [(''error'', JStr ''boom'')])
      else if text = created_response
        then Some (JObj [(''statusCode'', JInt 200), (''body'', JStr created_body)])
      else if text = created_body then Some (JObj created_record)
      else if text = saved_response
        then Some (JObj [(''statusCode'', JInt 200), (''body'', JStr saved_body)])
      else None)"

definition stub_runtime :: runtime where
  "stub_runtime = \<lparr>
     json_loads = stub_loads,
     json_dumps = (\<lambda>v. []),
     py_repr = (\<lambda>v. []),
     lib_str = (\<lambda>e. case e of HTTPException status detail \<Rightarrow> str_int status @ '': '' @ detail
                      | _ \<Rightarrow> []),
     lax_int = (\<lambda>v. None),
     lax_str = (\<lambda>v. None),
     lax_dict = (\<lambda>v. None),
     parse_datetime = (\<lambda>v. if v = JStr ''2025-10-06T10:00:00'' then Some stub_datetime else None),
     utcnow = stub_datetime,
     isoformat = (\<lambda>t. ''2025-10-06T10:00:00''),
     fromisoformat = (\<lambda>s. if s = ''2025-10-06T10:00:00'' then Some stub_datetime else None),
     RedditComment_init = (\<lambda>kw. None),
     FilteredPost_init = (\<lambda>kw. None)\<rparr>"

text \<open>
  The results of a run, and collaborators for running the service: the lambda client of
  this theory over a substrate (the stub substrates keep no state, so the world is
  \<open>unit\<close>), a text generator with a fixed answer, the runtime's clock, and a configuration
  that answers every request. \<open>declared_config\<close> replaces the configuration by the class
  \<^verbatim>\<open>SummarizerConfig\<close> as the repository declares it, with \<^verbatim>\<open>DEFAULT_MODEL\<close> and
  \<^verbatim>\<open>MODEL_PARAMS\<close> and none of the three methods, so that calling one raises
  \<^verbatim>\<open>AttributeError\<close>.
\<close>

definition result_of :: "(exn + 'a) \<times> 'w \<times> call list \<Rightarrow> exn + 'a" where
  "result_of r = fst r"

definition calls_of :: "(exn + 'a) \<times> 'w \<times> call list \<Rightarrow> call list" where
  "calls_of r = snd (snd r)"

definition created_summary :: StorySummary where
  "created_summary = \<lparr>post_id = 7, title = ''t'', summary = ''s'', generated_story = ''g'',
                        model_used = ''m'', generation_metadata = None,
                        id_field = 101, created_at = stub_datetime\<rparr>"

definition stub_collaborators :: "substrate \<Rightarrow> unit collaborators" where
  "stub_collaborators invoke = \<lparr>
     client_get_story_summary_by_post_id =
       (\<lambda>pid w. (get_story_summary_by_post_id stub_runtime invoke pid, w)),
     client_create_story_summary = (\<lambda>s w. (create_story_summary stub_runtime invoke s, w)),
     client_generate_text = (\<lambda>prompt model_id parameters w. (Inr (JStr ''generated''), w)),
     clock_utcnow = (\<lambda>w. (utcnow stub_runtime, w)),
     config_get_story_prompt = (\<lambda>ttl content comments_text. Inr ''story''),
     config_get_summary_prompt = (\<lambda>ttl content comments_text. Inr ''summary''),
     config_get_model_params = (\<lambda>model. Inr (JObj [(''max_length'', JInt 150)]))\<rparr>"

definition declared_config :: "'w collaborators \<Rightarrow> 'w collaborators" where
  "declared_config c = c\<lparr>
     config_get_story_prompt := (\<lambda>ttl content comments_text. Inl AttributeError),
     config_get_summary_prompt := (\<lambda>ttl content comments_text. Inl AttributeError),
     config_get_model_params := (\<lambda>model. Inl AttributeError)\<rparr>"

section \<open>Properties\<close>

subsection \<open>Status classification\<close>

lemma status_404_not_200: "status_is d 404 \<Longrightarrow> \<not> status_is d 200"
  unfolding status_is_def
  by (cases "(dict_get d ''statusCode'' JNull, 404::int)" rule: py_eq_int.cases) auto

lemma by_post_id_not_200:
  assumes "outcome (invoke data_service_function_name
             (json_dumps rt (get_story_summary_by_post_id_payload n))) = Inr raw"
    and "json_loads rt raw = Some (JObj d)" and "\<not> status_is d 200"
  shows "get_story_summary_by_post_id rt invoke n = Inr None"
  using assms
  by (simp add: get_story_summary_by_post_id_def get_story_summary_by_post_id_try_def
        wait_for_def response_dict_def)

lemma by_id_not_200:
  assumes "outcome (invoke data_service_function_name
             (json_dumps rt (get_story_summary_by_id_payload n))) = Inr raw"
    and "json_loads rt raw = Some (JObj d)" and "\<not> status_is d 200"
  shows "get_story_summary_by_id rt invoke n = Inr None"
  using assms
  by (simp add: get_story_summary_by_id_def get_story_summary_by_id_try_def
        wait_for_def response_dict_def)

lemma get_reddit_posts_not_200:
  assumes "outcome (invoke data_service_function_name
             (json_dumps rt (get_reddit_posts_payload limit sub))) = Inr raw"
    and "json_loads rt raw = Some (JObj d)" and "\<not> status_is d 200"
  shows "get_reddit_posts rt invoke limit sub = Inr []"
  using assms
  by (simp add: get_reddit_posts_def get_reddit_posts_try_def response_dict_def)

lemma stub_not_found_parses:
  "json_loads stub_runtime not_found_response = Some (JObj [(''statusCode'', JInt 404)])"
  by (simp add: stub_runtime_def stub_loads_def)

lemma stub_outcome: "outcome (stub_target secs r f p) = r"
  by (simp add: stub_target_def)

lemma stub_elapsed: "elapsed (stub_target secs r f p) = secs"
  by (simp add: stub_target_def)

subsection \<open>C3: a 404 response is an absent result\<close>

text \<open>
  C3. Whenever the response of the data service parses to a dict whose \<open>statusCode\<close>
  equals 404, the read adapters return without raising, and what they return is their
  absent result: \<^verbatim>\<open>None\<close> for \<open>get_story_summary_by_post_id\<close> and
  \<open>get_story_summary_by_id\<close>, the empty list for \<open>get_reddit_posts\<close>, whose result is a
  list.
\<close>

theorem not_found_is_absent:
  assumes "json_loads rt raw = Some (JObj d)" and "status_is d 404"
  shows "(outcome (invoke data_service_function_name
            (json_dumps rt (get_story_summary_by_post_id_payload n))) = Inr raw
          \<longrightarrow> get_story_summary_by_post_id rt invoke n = Inr None)
       \<and> (outcome (invoke data_service_function_name
            (json_dumps rt (get_story_summary_by_id_payload n))) = Inr raw
          \<longrightarrow> get_story_summary_by_id rt invoke n = Inr None)
       \<and> (outcome (invoke data_service_function_name
            (json_dumps rt (get_reddit_posts_payload limit sub))) = Inr raw
          \<longrightarrow> get_reddit_posts rt invoke limit sub = Inr [])"
proof -
  have n200: "\<not> status_is d 200"
    using assms(2) by (rule status_404_not_200)
  show ?thesis
    using by_post_id_not_200 [OF _ assms(1) n200] by_id_not_200 [OF _ assms(1) n200]
      get_reddit_posts_not_200 [OF _ assms(1) n200]
    by blast
qed

theorem not_found_is_absent_witness:
  "json_loads stub_runtime not_found_response = Some (JObj [(''statusCode'', JInt 404)])
   \<and> status_is [(''statusCode'', JInt 404)] 404
   \<and> get_story_summary_by_post_id stub_runtime (stub_target 1 (Inr not_found_response)) 42
       = Inr None
   \<and> get_story_summary_by_id stub_runtime (stub_target 1 (Inr not_found_response)) 42
       = Inr None
   \<and> get_reddit_posts stub_runtime (stub_target 1 (Inr not_found_response)) 10 None
       = Inr []"
proof -
  have h1: "json_loads stub_runtime not_found_response = Some (JObj [(''statusCode'', JInt 404)])"
    by (rule stub_not_found_parses)
  have h2: "status_is [(''statusCode'', JInt 404)] 404"
    by (simp add: status_is_def dict_get_def)
  show ?thesis
    using h1 h2
      not_found_is_absent [OF h1 h2, of "stub_target 1 (Inr not_found_response)" 42 10 None]
    by (simp add: stub_outcome)
qed

subsection \<open>C1: what an expired timeout produces\<close>

lemma wait_for_expired: "timeout < elapsed call \<Longrightarrow> wait_for call timeout = Inl TimeoutError"
  by (simp add: wait_for_def)

lemma stub_created_parses:
  "json_loads stub_runtime created_response
     = Some (JObj [(''statusCode'', JInt 200), (''body'', JStr created_body)])"
  by (simp add: stub_runtime_def stub_loads_def created_response_def not_found_response_def
        boom_response_def boom_body_def dq_def edq_def)

lemma stub_created_body_parses:
  "json_loads stub_runtime created_body = Some (JObj created_record)"
  by (simp add: stub_runtime_def stub_loads_def created_response_def not_found_response_def
        boom_response_def boom_body_def created_body_def dq_def edq_def)

lemma stub_saved_parses:
  "json_loads stub_runtime saved_response
     = Some (JObj [(''statusCode'', JInt 200), (''body'', JStr saved_body)])"
  by (simp add: stub_runtime_def stub_loads_def created_response_def not_found_response_def
        boom_response_def boom_body_def created_body_def saved_response_def dq_def edq_def)

lemma stub_boom_parses:
  "json_loads stub_runtime boom_response
     = Some (JObj [(''statusCode'', JInt 500), (''body'', JStr boom_body)])"
  by (simp add: stub_runtime_def stub_loads_def not_found_response_def boom_response_def
        dq_def edq_def)

lemma status_200_literal: "status_is ((''statusCode'', JInt 200) # d) 200"
  by (simp add: status_is_def dict_get_def)

lemma status_500_literal: "\<not> status_is ((''statusCode'', JInt 500) # d) 200"
  by (simp add: status_is_def dict_get_def)

text \<open>
  C1, as the claim states it, fails: with the substrate answering a successful creation
  after 45 seconds, \<open>get_story_summary_by_post_id\<close> returns \<^verbatim>\<open>None\<close> instead of raising a
  timeout, and \<open>save_reddit_posts\<close>, which sets no timeout, returns the success value.
\<close>

theorem timeout_raises_counterexample:
  "get_story_summary_by_post_id stub_runtime (stub_target 45 (Inr created_response)) 7
     = Inr None
   \<and> save_reddit_posts stub_runtime (stub_target 45 (Inr saved_response)) [stub_post]
     = Inr (JObj [(''success'', JBool True), (''message'', JStr saved_body)])"
proof -
  have a: "get_story_summary_by_post_id stub_runtime (stub_target 45 (Inr created_response)) 7
             = Inr None"
    by (simp add: get_story_summary_by_post_id_def get_story_summary_by_post_id_try_def
          wait_for_def stub_elapsed timeout_seconds_def)
  have b: "save_reddit_posts stub_runtime (stub_target 45 (Inr saved_response)) [stub_post]
             = Inr (JObj [(''success'', JBool True), (''message'', JStr saved_body)])"
    by (simp add: save_reddit_posts_def save_reddit_posts_try_def stub_outcome response_dict_def
          stub_saved_parses status_200_literal dict_get_def)
  from a b show ?thesis by simp
qed

text \<open>
  C1 amended. In the summarizer client, when the invocation takes longer than
  \<open>timeout_seconds\<close>, whatever the substrate would have returned:
  \<open>create_story_summary\<close> raises \<^verbatim>\<open>Exception("Timeout calling Data Service Lambda")\<close>,
  \<open>get_story_summary_by_id\<close> and \<open>get_story_summary_by_post_id\<close> return \<^verbatim>\<open>None\<close>, and
  \<open>health_check\<close> returns the failure dict with that message. The reddit client has no
  timeout: the results of \<open>save_reddit_posts\<close> and \<open>get_reddit_posts\<close> are the same for
  two substrates with the same outcome, however long either takes.
\<close>

theorem timeout_outcomes:
  "(timeout_seconds < elapsed (invoke data_service_function_name
        (json_dumps rt (create_story_summary_payload rt s)))
      \<longrightarrow> create_story_summary rt invoke s
            = Inl (Exception ''Timeout calling Data Service Lambda''))
   \<and> (timeout_seconds < elapsed (invoke data_service_function_name
        (json_dumps rt (get_story_summary_by_id_payload n)))
      \<longrightarrow> get_story_summary_by_id rt invoke n = Inr None)
   \<and> (timeout_seconds < elapsed (invoke data_service_function_name
        (json_dumps rt (get_story_summary_by_post_id_payload n)))
      \<longrightarrow> get_story_summary_by_post_id rt invoke n = Inr None)
   \<and> (timeout_seconds < elapsed (invoke data_service_function_name
        (json_dumps rt health_check_payload))
      \<longrightarrow> health_check rt invoke
            = Inr (JObj [(''success'', JBool False),
                         (''error'', JStr ''Timeout calling Data Service Lambda'')]))
   \<and> (outcome (invoke data_service_function_name
          (json_dumps rt (save_reddit_posts_payload rt posts)))
        = outcome (invoke' data_service_function_name
          (json_dumps rt (save_reddit_posts_payload rt posts)))
      \<longrightarrow> save_reddit_posts rt invoke posts = save_reddit_posts rt invoke' posts)
   \<and> (outcome (invoke data_service_function_name
          (json_dumps rt (get_reddit_posts_payload limit sub)))
        = outcome (invoke' data_service_function_name
          (json_dumps rt (get_reddit_posts_payload limit sub)))
      \<longrightarrow> get_reddit_posts rt invoke limit sub = get_reddit_posts rt invoke' limit sub)"
proof (intro conjI impI)
  assume "timeout_seconds < elapsed (invoke data_service_function_name
            (json_dumps rt (create_story_summary_payload rt s)))"
  then show "create_story_summary rt invoke s
               = Inl (Exception ''Timeout calling Data Service Lambda'')"
    by (simp add: create_story_summary_def create_story_summary_try_def wait_for_expired)
next
  assume "timeout_seconds < elapsed (invoke data_service_function_name
            (json_dumps rt (get_story_summary_by_id_payload n)))"
  then show "get_story_summary_by_id rt invoke n = Inr None"
    by (simp add: get_story_summary_by_id_def get_story_summary_by_id_try_def wait_for_expired)
next
  assume "timeout_seconds < elapsed (invoke data_service_function_name
            (json_dumps rt (get_story_summary_by_post_id_payload n)))"
  then show "get_story_summary_by_post_id rt invoke n = Inr None"
    by (simp add: get_story_summary_by_post_id_def get_story_summary_by_post_id_try_def
          wait_for_expired)
next
  assume "timeout_seconds < elapsed (invoke data_service_function_name
            (json_dumps rt health_check_payload))"
  then show "health_check rt invoke
               = Inr (JObj [(''success'', JBool False),
                            (''error'', JStr ''Timeout calling Data Service Lambda'')])"
    by (simp add: health_check_def health_check_try_def wait_for_expired)
next
  assume "outcome (invoke data_service_function_name
            (json_dumps rt (save_reddit_posts_payload rt posts)))
          = outcome (invoke' data_service_function_name
            (json_dumps rt (save_reddit_posts_payload rt posts)))"
  then show "save_reddit_posts rt invoke posts = save_reddit_posts rt invoke' posts"
    by (simp add: save_reddit_posts_def save_reddit_posts_try_def)
next
  assume "outcome (invoke data_service_function_name
            (json_dumps rt (get_reddit_posts_payload limit sub)))
          = outcome (invoke' data_service_function_name
            (json_dumps rt (get_reddit_posts_payload limit sub)))"
  then show "get_reddit_posts rt invoke limit sub = get_reddit_posts rt invoke' limit sub"
    by (simp add: get_reddit_posts_def get_reddit_posts_try_def)
qed

theorem timeout_outcomes_witness:
  "timeout_seconds < 45
   \<and> create_story_summary stub_runtime (stub_target 45 (Inr created_response))
        stub_summary_create
      = Inl (Exception ''Timeout calling Data Service Lambda'')
   \<and> get_story_summary_by_id stub_runtime (stub_target 45 (Inr created_response)) 101
      = Inr None
   \<and> get_story_summary_by_post_id stub_runtime (stub_target 45 (Inr created_response)) 101
      = Inr None
   \<and> health_check stub_runtime (stub_target 45 (Inr created_response))
      = Inr (JObj [(''success'', JBool False),
                   (''error'', JStr ''Timeout calling Data Service Lambda'')])
   \<and> save_reddit_posts stub_runtime (stub_target 45 (Inr saved_response)) [stub_post]
      = save_reddit_posts stub_runtime (stub_target 1 (Inr saved_response)) [stub_post]
   \<and> get_reddit_posts stub_runtime (stub_target 45 (Inr saved_response)) 10 None
      = get_reddit_posts stub_runtime (stub_target 1 (Inr saved_response)) 10 None"
proof -
  have h: "timeout_seconds < 45"
    by (simp add: timeout_seconds_def)
  show ?thesis
    using h
      timeout_outcomes [of "stub_target 45 (Inr created_response)" stub_runtime
        stub_summary_create 101]
      timeout_outcomes [of "stub_target 45 (Inr saved_response)" stub_runtime
        stub_summary_create 101 "[stub_post]" "stub_target 1 (Inr saved_response)" 10 None]
    by (simp add: stub_elapsed stub_outcome)
qed

subsection \<open>C2: read adapters and failures\<close>

text \<open>
  C2, as the claim states it, fails: against a target answering with status 500, and
  against a substrate that raises a connection error, \<open>get_story_summary_by_id\<close> returns
  \<^verbatim>\<open>None\<close>, exactly what it returns for a 404, and \<open>get_reddit_posts\<close> returns the empty
  list.
\<close>

theorem failures_surface_counterexample:
  "get_story_summary_by_id stub_runtime (stub_target 1 (Inr boom_response)) 101 = Inr None
   \<and> get_story_summary_by_id stub_runtime (stub_target 1 (Inl connection_error)) 101 = Inr None
   \<and> get_story_summary_by_id stub_runtime (stub_target 1 (Inr not_found_response)) 101
       = Inr None
   \<and> get_reddit_posts stub_runtime (stub_target 1 (Inr boom_response)) 10 None = Inr []
   \<and> get_reddit_posts stub_runtime (stub_target 1 (Inl connection_error)) 10 None = Inr []"
proof -
  have a: "get_story_summary_by_id stub_runtime (stub_target 1 (Inr boom_response)) 101
             = Inr None"
    by (rule by_id_not_200 [OF stub_outcome stub_boom_parses status_500_literal])
  have b: "get_story_summary_by_id stub_runtime (stub_target 1 (Inl connection_error)) 101
             = Inr None"
    by (simp add: get_story_summary_by_id_def get_story_summary_by_id_try_def wait_for_def
          stub_outcome stub_elapsed timeout_seconds_def connection_error_def)
  have c: "get_story_summary_by_id stub_runtime (stub_target 1 (Inr not_found_response)) 101
             = Inr None"
    by (rule by_id_not_200 [OF stub_outcome stub_not_found_parses])
       (simp add: status_is_def dict_get_def)
  have d: "get_reddit_posts stub_runtime (stub_target 1 (Inr boom_response)) 10 None = Inr []"
    by (rule get_reddit_posts_not_200 [OF stub_outcome stub_boom_parses status_500_literal])
  have e: "get_reddit_posts stub_runtime (stub_target 1 (Inl connection_error)) 10 None
             = Inr []"
    by (simp add: get_reddit_posts_def get_reddit_posts_try_def stub_outcome)
  from a b c d e show ?thesis by simp
qed

lemma by_id_never_raises: "\<exists>r. get_story_summary_by_id rt invoke n = Inr r"
  by (simp add: get_story_summary_by_id_def split: sum.splits exn.splits)

lemma get_reddit_posts_never_raises: "\<exists>r. get_reddit_posts rt invoke limit sub = Inr r"
  by (simp add: get_reddit_posts_def split: sum.splits)

lemma by_id_raised:
  assumes "outcome (invoke data_service_function_name
             (json_dumps rt (get_story_summary_by_id_payload n))) = Inl e"
  shows "get_story_summary_by_id rt invoke n = Inr None"
  using assms
  by (simp add: get_story_summary_by_id_def get_story_summary_by_id_try_def wait_for_def
        split: exn.splits)

lemma by_id_undecodable:
  assumes "outcome (invoke data_service_function_name
             (json_dumps rt (get_story_summary_by_id_payload n))) = Inr raw"
    and "json_loads rt raw = None"
  shows "get_story_summary_by_id rt invoke n = Inr None"
  using assms
  by (simp add: get_story_summary_by_id_def get_story_summary_by_id_try_def wait_for_def
        response_dict_def)

text \<open>
  C2 amended. \<open>get_story_summary_by_id\<close> and \<open>get_reddit_posts\<close> never raise. When the
  substrate raises, when the response text is not JSON, when the response carries any
  status other than 200 (so also every non-2xx, non-404 status), and, for
  \<open>get_story_summary_by_id\<close>, when the timeout expires, the first returns \<^verbatim>\<open>None\<close> and
  the second the empty list: the caller cannot tell these outcomes from an absent or
  empty result.
\<close>

theorem read_adapters_swallow_failures:
  "(\<exists>r. get_story_summary_by_id rt invoke n = Inr r)
   \<and> (\<exists>r. get_reddit_posts rt invoke limit sub = Inr r)
   \<and> (outcome (invoke data_service_function_name
          (json_dumps rt (get_story_summary_by_id_payload n))) = Inl e
        \<longrightarrow> get_story_summary_by_id rt invoke n = Inr None)
   \<and> (timeout_seconds < elapsed (invoke data_service_function_name
          (json_dumps rt (get_story_summary_by_id_payload n)))
        \<longrightarrow> get_story_summary_by_id rt invoke n = Inr None)
   \<and> (outcome (invoke data_service_function_name
          (json_dumps rt (get_story_summary_by_id_payload n))) = Inr raw
        \<and> json_loads rt raw = None
        \<longrightarrow> get_story_summary_by_id rt invoke n = Inr None)
   \<and> (outcome (invoke data_service_function_name
          (json_dumps rt (get_story_summary_by_id_payload n))) = Inr raw
        \<and> json_loads rt raw = Some (JObj d) \<and> \<not> status_is d 200
        \<longrightarrow> get_story_summary_by_id rt invoke n = Inr None)
   \<and> (outcome (invoke data_service_function_name
          (json_dumps rt (get_reddit_posts_payload limit sub))) = Inl e
        \<longrightarrow> get_reddit_posts rt invoke limit sub = Inr [])
   \<and> (outcome (invoke data_service_function_name
          (json_dumps rt (get_reddit_posts_payload limit sub))) = Inr raw
        \<and> json_loads rt raw = None
        \<longrightarrow> get_reddit_posts rt invoke limit sub = Inr [])
   \<and> (outcome (invoke data_service_function_name
          (json_dumps rt (get_reddit_posts_payload limit sub))) = Inr raw
        \<and> json_loads rt raw = Some (JObj d) \<and> \<not> status_is d 200
        \<longrightarrow> get_reddit_posts rt invoke limit sub = Inr [])"
proof (intro conjI impI)
  show "\<exists>r. get_story_summary_by_id rt invoke n = Inr r"
    by (rule by_id_never_raises)
  show "\<exists>r. get_reddit_posts rt invoke limit sub = Inr r"
    by (rule get_reddit_posts_never_raises)
next
  assume "outcome (invoke data_service_function_name
            (json_dumps rt (get_story_summary_by_id_payload n))) = Inl e"
  then show "get_story_summary_by_id rt invoke n = Inr None"
    by (rule by_id_raised)
next
  assume "timeout_seconds < elapsed (invoke data_service_function_name
            (json_dumps rt (get_story_summary_by_id_payload n)))"
  then show "get_story_summary_by_id rt invoke n = Inr None"
    by (simp add: get_story_summary_by_id_def get_story_summary_by_id_try_def wait_for_expired)
next
  assume "outcome (invoke data_service_function_name
            (json_dumps rt (get_story_summary_by_id_payload n))) = Inr raw
          \<and> json_loads rt raw = None"
  then show "get_story_summary_by_id rt invoke n = Inr None"
    using by_id_undecodable by blast
next
  assume "outcome (invoke data_service_function_name
            (json_dumps rt (get_story_summary_by_id_payload n))) = Inr raw
          \<and> json_loads rt raw = Some (JObj d) \<and> \<not> status_is d 200"
  then show "get_story_summary_by_id rt invoke n = Inr None"
    using by_id_not_200 by blast
next
  assume "outcome (invoke data_service_function_name
            (json_dumps rt (get_reddit_posts_payload limit sub))) = Inl e"
  then show "get_reddit_posts rt invoke limit sub = Inr []"
    by (simp add: get_reddit_posts_def get_reddit_posts_try_def)
next
  assume "outcome (invoke data_service_function_name
            (json_dumps rt (get_reddit_posts_payload limit sub))) = Inr raw
          \<and> json_loads rt raw = None"
  then show "get_reddit_posts rt invoke limit sub = Inr []"
    by (simp add: get_reddit_posts_def get_reddit_posts_try_def response_dict_def)
next
  assume "outcome (invoke data_service_function_name
            (json_dumps rt (get_reddit_posts_payload limit sub))) = Inr raw
          \<and> json_loads rt raw = Some (JObj d) \<and> \<not> status_is d 200"
  then show "get_reddit_posts rt invoke limit sub = Inr []"
    using get_reddit_posts_not_200 by blast
qed

lemma stub_gateway_error_undecodable:
  "json_loads stub_runtime ''Bad Gateway'' = None"
  by (simp add: stub_runtime_def stub_loads_def created_response_def not_found_response_def
        boom_response_def boom_body_def created_body_def saved_response_def dq_def edq_def)

theorem read_adapters_swallow_failures_witness:
  "timeout_seconds < 45
   \<and> json_loads stub_runtime ''Bad Gateway'' = None
   \<and> json_loads stub_runtime boom_response
       = Some (JObj [(''statusCode'', JInt 500), (''body'', JStr boom_body)])
   \<and> \<not> status_is [(''statusCode'', JInt 500), (''body'', JStr boom_body)] 200
   \<and> get_story_summary_by_id stub_runtime (stub_target 1 (Inl connection_error)) 101 = Inr None
   \<and> get_story_summary_by_id stub_runtime (stub_target 45 (Inr created_response)) 101
       = Inr None
   \<and> get_story_summary_by_id stub_runtime (stub_target 1 (Inr ''Bad Gateway'')) 101 = Inr None
   \<and> get_story_summary_by_id stub_runtime (stub_target 1 (Inr boom_response)) 101 = Inr None
   \<and> get_reddit_posts stub_runtime (stub_target 1 (Inl connection_error)) 10 None = Inr []
   \<and> get_reddit_posts stub_runtime (stub_target 1 (Inr ''Bad Gateway'')) 10 None = Inr []
   \<and> get_reddit_posts stub_runtime (stub_target 1 (Inr boom_response)) 10 None = Inr []"
proof -
  have h: "timeout_seconds < 45"
    by (simp add: timeout_seconds_def)
  show ?thesis
    using h stub_gateway_error_undecodable stub_boom_parses
      status_500_literal [of "[(''body'', JStr boom_body)]"]
      read_adapters_swallow_failures [of stub_runtime "stub_target 1 (Inl connection_error)"
        101 10 None connection_error]
      read_adapters_swallow_failures [of stub_runtime "stub_target 45 (Inr created_response)"
        101 10 None]
      read_adapters_swallow_failures [of stub_runtime "stub_target 1 (Inr ''Bad Gateway'')"
        101 10 None _ "''Bad Gateway''"]
      read_adapters_swallow_failures [of stub_runtime "stub_target 1 (Inr boom_response)"
        101 10 None _ boom_response "[(''statusCode'', JInt 500), (''body'', JStr boom_body)]"]
    by (simp add: stub_outcome stub_elapsed)
qed

subsection \<open>C4: a 5xx response\<close>

lemma py_eq_int_unique: "py_eq_int v a \<Longrightarrow> py_eq_int v b \<Longrightarrow> a = b"
  by (cases "(v, a)" rule: py_eq_int.cases) auto

lemma status_is_unique: "status_is d a \<Longrightarrow> status_is d b \<Longrightarrow> a = b"
  unfolding status_is_def by (rule py_eq_int_unique)

lemma create_not_200:
  assumes "elapsed (invoke data_service_function_name
             (json_dumps rt (create_story_summary_payload rt s))) \<le> timeout_seconds"
    and "outcome (invoke data_service_function_name
             (json_dumps rt (create_story_summary_payload rt s))) = Inr raw"
    and "json_loads rt raw = Some (JObj d)" and "\<not> status_is d 200"
  shows "create_story_summary rt invoke s
           = Inl (Exception (''Failed to create story summary: '' @
                    format_value rt (dict_get d ''body'' (JStr ''Unknown error''))))"
  using assms
  by (simp add: create_story_summary_def create_story_summary_try_def wait_for_def
        response_dict_def)

text \<open>
  C4, as the claim states it, fails: against the target answering
  \<^verbatim>\<open>{statusCode: 500, body: json({error: "boom"})}\<close>, \<open>create_story_summary\<close> raises a plain
  \<^verbatim>\<open>Exception\<close> whose message is the prefix \<^verbatim>\<open>Failed to create story summary: \<close> followed
  by the whole body text, which is not the message \<^verbatim>\<open>boom\<close>.
\<close>

theorem server_error_message_counterexample:
  "create_story_summary stub_runtime (stub_target 1 (Inr boom_response)) stub_summary_create
     = Inl (Exception (''Failed to create story summary: '' @ boom_body))
   \<and> ''Failed to create story summary: '' @ boom_body \<noteq> ''boom''"
proof -
  have w: "elapsed (stub_target 1 (Inr boom_response) data_service_function_name
             (json_dumps stub_runtime (create_story_summary_payload stub_runtime
                stub_summary_create))) \<le> timeout_seconds"
    by (simp add: stub_elapsed timeout_seconds_def)
  have "create_story_summary stub_runtime (stub_target 1 (Inr boom_response))
          stub_summary_create
        = Inl (Exception (''Failed to create story summary: '' @
                 format_value stub_runtime
                   (dict_get [(''statusCode'', JInt 500), (''body'', JStr boom_body)] ''body''
                      (JStr ''Unknown error''))))"
    using create_not_200 [of "stub_target 1 (Inr boom_response)" stub_runtime
        stub_summary_create boom_response
        "[(''statusCode'', JInt 500), (''body'', JStr boom_body)]"]
      w stub_boom_parses status_500_literal [of "[(''body'', JStr boom_body)]"]
    by (simp add: stub_outcome)
  then show ?thesis
    by (simp add: format_value_def dict_get_def)
qed

lemma not_200_of_5xx: "status_is d code \<Longrightarrow> 500 \<le> code \<Longrightarrow> \<not> status_is d 200"
  using status_is_unique by fastforce

text \<open>
  C4 amended. No adapter produces a \<^verbatim>\<open>ServerError\<close>. When the response carries a status
  from 500 to 599 and its body is a string (and, in the summarizer client, arrives within
  the timeout): \<open>create_story_summary\<close> raises a plain \<^verbatim>\<open>Exception\<close> whose message is
  \<^verbatim>\<open>Failed to create story summary: \<close> followed by the body string, verbatim and unparsed;
  \<open>save_reddit_posts\<close> and \<open>health_check\<close> return the dict
  \<^verbatim>\<open>{"success": False, "error": body}\<close>; \<open>get_story_summary_by_id\<close> and
  \<open>get_story_summary_by_post_id\<close> return \<^verbatim>\<open>None\<close> and \<open>get_reddit_posts\<close> returns the empty
  list.
\<close>

theorem server_error_outcomes:
  assumes "json_loads rt raw = Some (JObj d)"
    and "status_is d code" and "500 \<le> code" and "code \<le> 599"
    and "map_of d ''body'' = Some (JStr b)"
  shows "(elapsed (invoke data_service_function_name
             (json_dumps rt (create_story_summary_payload rt s))) \<le> timeout_seconds
          \<and> outcome (invoke data_service_function_name
             (json_dumps rt (create_story_summary_payload rt s))) = Inr raw
          \<longrightarrow> create_story_summary rt invoke s
                = Inl (Exception (''Failed to create story summary: '' @ b)))
       \<and> (outcome (invoke data_service_function_name
             (json_dumps rt (save_reddit_posts_payload rt posts))) = Inr raw
          \<longrightarrow> save_reddit_posts rt invoke posts
                = Inr (JObj [(''success'', JBool False), (''error'', JStr b)]))
       \<and> (elapsed (invoke data_service_function_name
             (json_dumps rt health_check_payload)) \<le> timeout_seconds
          \<and> outcome (invoke data_service_function_name
             (json_dumps rt health_check_payload)) = Inr raw
          \<longrightarrow> health_check rt invoke
                = Inr (JObj [(''success'', JBool False), (''error'', JStr b)]))
       \<and> (outcome (invoke data_service_function_name
             (json_dumps rt (get_story_summary_by_id_payload n))) = Inr raw
          \<longrightarrow> get_story_summary_by_id rt invoke n = Inr None)
       \<and> (outcome (invoke data_service_function_name
             (json_dumps rt (get_story_summary_by_post_id_payload n))) = Inr raw
          \<longrightarrow> get_story_summary_by_post_id rt invoke n = Inr None)
       \<and> (outcome (invoke data_service_function_name
             (json_dumps rt (get_reddit_posts_payload limit sub))) = Inr raw
          \<longrightarrow> get_reddit_posts rt invoke limit sub = Inr [])"
proof -
  have n200: "\<not> status_is d 200"
    using assms(2) assms(3) by (rule not_200_of_5xx)
  have body: "dict_get d ''body'' dflt = JStr b" for dflt
    using assms(5) by (simp add: dict_get_def)
  have create: "create_story_summary rt invoke s
                  = Inl (Exception (''Failed to create story summary: '' @ b))"
    if "elapsed (invoke data_service_function_name
          (json_dumps rt (create_story_summary_payload rt s))) \<le> timeout_seconds"
      and "outcome (invoke data_service_function_name
          (json_dumps rt (create_story_summary_payload rt s))) = Inr raw"
    using create_not_200 [of invoke rt s raw d] that assms(1) n200
    by (simp add: body format_value_def)
  have save: "save_reddit_posts rt invoke posts
                = Inr (JObj [(''success'', JBool False), (''error'', JStr b)])"
    if "outcome (invoke data_service_function_name
          (json_dumps rt (save_reddit_posts_payload rt posts))) = Inr raw"
    using that assms(1) n200
    by (simp add: save_reddit_posts_def save_reddit_posts_try_def response_dict_def body)
  have health: "health_check rt invoke
                  = Inr (JObj [(''success'', JBool False), (''error'', JStr b)])"
    if "elapsed (invoke data_service_function_name
          (json_dumps rt health_check_payload)) \<le> timeout_seconds"
      and "outcome (invoke data_service_function_name
          (json_dumps rt health_check_payload)) = Inr raw"
    using that assms(1) n200
    by (simp add: health_check_def health_check_try_def wait_for_def response_dict_def body)
  show ?thesis
    using create save health by_id_not_200 [of invoke rt n raw d]
      by_post_id_not_200 [of invoke rt n raw d]
      get_reddit_posts_not_200 [of invoke rt limit sub raw d] assms(1) n200
    by blast
qed

theorem server_error_outcomes_witness:
  "json_loads stub_runtime boom_response
     = Some (JObj [(''statusCode'', JInt 500), (''body'', JStr boom_body)])
   \<and> status_is [(''statusCode'', JInt 500), (''body'', JStr boom_body)] 500
   \<and> map_of [(''statusCode'', JInt 500), (''body'', JStr boom_body)] ''body''
       = Some (JStr boom_body)
   \<and> create_story_summary stub_runtime (stub_target 1 (Inr boom_response)) stub_summary_create
       = Inl (Exception (''Failed to create story summary: '' @ boom_body))
   \<and> save_reddit_posts stub_runtime (stub_target 1 (Inr boom_response)) [stub_post]
       = Inr (JObj [(''success'', JBool False), (''error'', JStr boom_body)])
   \<and> health_check stub_runtime (stub_target 1 (Inr boom_response))
       = Inr (JObj [(''success'', JBool False), (''error'', JStr boom_body)])
   \<and> get_story_summary_by_id stub_runtime (stub_target 1 (Inr boom_response)) 101 = Inr None
   \<and> get_story_summary_by_post_id stub_runtime (stub_target 1 (Inr boom_response)) 7
       = Inr None
   \<and> get_reddit_posts stub_runtime (stub_target 1 (Inr boom_response)) 10 None = Inr []"
proof -
  have h2: "status_is [(''statusCode'', JInt 500), (''body'', JStr boom_body)] 500"
    by (simp add: status_is_def dict_get_def)
  have h5: "map_of [(''statusCode'', JInt 500), (''body'', JStr boom_body)] ''body''
              = Some (JStr boom_body)"
    by simp
  have t: "(1::rat) \<le> timeout_seconds"
    by (simp add: timeout_seconds_def)
  show ?thesis
    using stub_boom_parses h2 h5 t
      server_error_outcomes [OF stub_boom_parses h2 _ _ h5,
        of "stub_target 1 (Inr boom_response)" stub_summary_create "[stub_post]" 101 10 None]
      server_error_outcomes [OF stub_boom_parses h2 _ _ h5,
        of "stub_target 1 (Inr boom_response)" stub_summary_create "[stub_post]" 7 10 None]
    by (simp add: stub_outcome stub_elapsed)
qed

subsection \<open>C5: a transport failure under save_reddit_posts\<close>

text \<open>
  C5, as the claim states it, fails: when the invoke call raises a connection error,
  \<open>save_reddit_posts\<close> does not raise; it returns the dict
  \<^verbatim>\<open>{"success": False, "error": str(e)}\<close>.
\<close>

theorem transport_failure_raised_counterexample:
  "save_reddit_posts stub_runtime (stub_target 1 (Inl connection_error)) [stub_post]
     = Inr (JObj [(''success'', JBool False),
                  (''error'', JStr ''Could not connect to the endpoint URL'')])"
  by (simp add: save_reddit_posts_def save_reddit_posts_try_def stub_outcome str_exc_def
        connection_error_def)

text \<open>
  C5 amended. Whatever exception the invoke call raises, \<open>save_reddit_posts\<close> returns
  normally, with the failure value \<^verbatim>\<open>{"success": False, "error": str(e)}\<close>.
\<close>

theorem save_returns_failure_value:
  assumes "outcome (invoke data_service_function_name
             (json_dumps rt (save_reddit_posts_payload rt posts))) = Inl e"
  shows "save_reddit_posts rt invoke posts
           = Inr (JObj [(''success'', JBool False), (''error'', JStr (str_exc rt e))])"
  using assms by (simp add: save_reddit_posts_def save_reddit_posts_try_def)

theorem save_returns_failure_value_witness:
  "outcome (stub_target 1 (Inl connection_error) data_service_function_name
      (json_dumps stub_runtime (save_reddit_posts_payload stub_runtime [stub_post])))
     = Inl connection_error
   \<and> save_reddit_posts stub_runtime (stub_target 1 (Inl connection_error)) [stub_post]
       = Inr (JObj [(''success'', JBool False),
                    (''error'', JStr (str_exc stub_runtime connection_error))])"
proof -
  have h: "outcome (stub_target 1 (Inl connection_error) data_service_function_name
             (json_dumps stub_runtime (save_reddit_posts_payload stub_runtime [stub_post])))
           = Inl connection_error"
    by (rule stub_outcome)
  from h save_returns_failure_value [of "stub_target 1 (Inl connection_error)" stub_runtime
      "[stub_post]" connection_error]
  show ?thesis
    by blast
qed

subsection \<open>C6: the request id of an envelope\<close>

lemma request_id_gateway_event:
  "request_id (gateway_event resource path method query path_params user_agent body_value)
     = Some (JStr ''test'')"
  by (simp add: request_id_def member_def gateway_event_def request_context_def)

text \<open>
  C6, as the claim states it, fails in its second half: the request id is not generated.
  Three different builds carry the same id, the constant \<^verbatim>\<open>test\<close>.
\<close>

theorem fresh_request_id_counterexample:
  "request_id (create_story_summary_payload stub_runtime stub_summary_create)
     = Some (JStr ''test'')
   \<and> request_id (get_story_summary_by_post_id_payload 42) = Some (JStr ''test'')
   \<and> request_id (save_reddit_posts_payload stub_runtime [stub_post]) = Some (JStr ''test'')"
  by (simp add: create_story_summary_payload_def get_story_summary_by_post_id_payload_def
        save_reddit_posts_payload_def request_id_gateway_event)

text \<open>
  C6 amended. Envelope building is a function of the operation's inputs alone, the
  request id included: every envelope of every operation of both clients carries the
  constant request id \<^verbatim>\<open>test\<close> in \<^verbatim>\<open>requestContext.requestId\<close>, so two builds from the
  same inputs are identical in every field.
\<close>

theorem request_id_is_constant:
  "request_id (create_story_summary_payload rt s) = Some (JStr ''test'')
   \<and> request_id (get_story_summary_by_id_payload n) = Some (JStr ''test'')
   \<and> request_id (get_story_summary_by_post_id_payload n) = Some (JStr ''test'')
   \<and> request_id health_check_payload = Some (JStr ''test'')
   \<and> request_id (save_reddit_posts_payload rt posts) = Some (JStr ''test'')
   \<and> request_id (get_reddit_posts_payload limit sub) = Some (JStr ''test'')"
  by (simp add: create_story_summary_payload_def get_story_summary_by_id_payload_def
        get_story_summary_by_post_id_payload_def health_check_payload_def
        save_reddit_posts_payload_def get_reddit_posts_payload_def request_id_gateway_event)

subsection \<open>C8: the created record comes back field for field\<close>

lemma StorySummary_validate_echo:
  assumes "parse_datetime rt (JStr created_text) = Some (StorySummary.created_at r)"
  shows "StorySummary_validate rt (StorySummary_json r created_text) = Some r"
proof (cases "generation_metadata r")
  case None
  with assms show ?thesis
    by (simp add: StorySummary_validate_def StorySummary_json_def field_int_def field_str_def
          field_optional_dict_def field_datetime_default_now_def)
next
  case (Some m)
  with assms show ?thesis
    by (simp add: StorySummary_validate_def StorySummary_json_def field_int_def field_str_def
          field_optional_dict_def field_datetime_default_now_def)
qed

lemma create_200:
  assumes "elapsed (invoke data_service_function_name
             (json_dumps rt (create_story_summary_payload rt s))) \<le> timeout_seconds"
    and "outcome (invoke data_service_function_name
             (json_dumps rt (create_story_summary_payload rt s))) = Inr raw"
    and "json_loads rt raw = Some (JObj d)" and "status_is d 200"
    and "map_of d ''body'' = Some (JStr b)"
    and "json_loads rt b = Some (JObj kv)"
  shows "create_story_summary rt invoke s
           = (case StorySummary_validate rt kv of
                None \<Rightarrow> Inl ValidationError | Some r \<Rightarrow> Inr r)"
  using assms
  by (simp add: create_story_summary_def create_story_summary_try_def wait_for_def
        response_dict_def dict_get_def loads_value_def StorySummary_init_def
        split: option.splits)

text \<open>
  C8. When the response to \<open>create_story_summary\<close> arrives within the timeout with
  status 200 and a body that is the JSON object of a stored record \<open>r\<close>, its \<open>created_at\<close>
  written as a text that parses to \<open>r\<close>'s, the adapter returns exactly \<open>r\<close>: every field
  of the returned summary equals the echoed one. The witness is the scenario of the spec:
  the input has \<open>post_id = 7\<close> and \<open>title = t\<close>, the target echoes it with \<open>id = 101\<close>, and
  the returned object has \<open>id = 101\<close> and the input's other fields.
\<close>

theorem create_returns_echoed_record:
  assumes "elapsed (invoke data_service_function_name
             (json_dumps rt (create_story_summary_payload rt s))) \<le> timeout_seconds"
    and "outcome (invoke data_service_function_name
             (json_dumps rt (create_story_summary_payload rt s))) = Inr raw"
    and "json_loads rt raw = Some (JObj d)" and "status_is d 200"
    and "map_of d ''body'' = Some (JStr b)"
    and "json_loads rt b = Some (JObj (StorySummary_json r created_text))"
    and "parse_datetime rt (JStr created_text) = Some (StorySummary.created_at r)"
  shows "create_story_summary rt invoke s = Inr r"
  using create_200 [of invoke rt s raw d b "StorySummary_json r created_text"]
    StorySummary_validate_echo [of rt created_text r] assms
  by simp

theorem create_returns_echoed_record_witness:
  "elapsed (stub_target 1 (Inr created_response) data_service_function_name
      (json_dumps stub_runtime (create_story_summary_payload stub_runtime stub_summary_create)))
     \<le> timeout_seconds
   \<and> json_loads stub_runtime created_response
       = Some (JObj [(''statusCode'', JInt 200), (''body'', JStr created_body)])
   \<and> status_is [(''statusCode'', JInt 200), (''body'', JStr created_body)] 200
   \<and> json_loads stub_runtime created_body
       = Some (JObj (StorySummary_json
            \<lparr>post_id = 7, title = ''t'', summary = ''s'', generated_story = ''g'',
             model_used = ''m'', generation_metadata = None,
             id_field = 101, created_at = stub_datetime\<rparr> ''2025-10-06T10:00:00''))
   \<and> parse_datetime stub_runtime (JStr ''2025-10-06T10:00:00'') = Some stub_datetime
   \<and> create_story_summary stub_runtime (stub_target 1 (Inr created_response))
        stub_summary_create
       = Inr \<lparr>post_id = post_id stub_summary_create,
              title = StorySummaryCreate.title stub_summary_create,
              summary = summary stub_summary_create,
              generated_story = generated_story stub_summary_create,
              model_used = model_used stub_summary_create,
              generation_metadata = generation_metadata stub_summary_create,
              id_field = 101, created_at = stub_datetime\<rparr>"
proof -
  let ?r = "\<lparr>post_id = 7, title = ''t'', summary = ''s'', generated_story = ''g'',
             model_used = ''m'', generation_metadata = None,
             id_field = 101, created_at = stub_datetime\<rparr>"
  have h1: "elapsed (stub_target 1 (Inr created_response) data_service_function_name
             (json_dumps stub_runtime (create_story_summary_payload stub_runtime
                stub_summary_create))) \<le> timeout_seconds"
    by (simp add: stub_elapsed timeout_seconds_def)
  have h4: "status_is [(''statusCode'', JInt 200), (''body'', JStr created_body)] 200"
    by (rule status_200_literal)
  have h5: "map_of [(''statusCode'', JInt 200), (''body'', JStr created_body)] ''body''
              = Some (JStr created_body)"
    by simp
  have h6: "json_loads stub_runtime created_body
              = Some (JObj (StorySummary_json ?r ''2025-10-06T10:00:00''))"
    by (simp add: stub_created_body_parses created_record_def StorySummary_json_def)
  have h7: "parse_datetime stub_runtime (JStr ''2025-10-06T10:00:00'') = Some stub_datetime"
    by (simp add: stub_runtime_def)
  have "create_story_summary stub_runtime (stub_target 1 (Inr created_response))
          stub_summary_create = Inr ?r"
    using create_returns_echoed_record [of "stub_target 1 (Inr created_response)" stub_runtime
        stub_summary_create created_response
        "[(''statusCode'', JInt 200), (''body'', JStr created_body)]" created_body ?r
        "''2025-10-06T10:00:00''"]
      h1 stub_created_parses h4 h5 h6 h7
    by (simp add: stub_outcome)
  with h1 stub_created_parses h4 h6 h7 show ?thesis
    by (simp add: stub_summary_create_def)
qed

subsection \<open>C9: query parameters in the path\<close>

lemma str_int_10: "str_int 10 = ''10''"
  by code_simp

text \<open>
  C9, as the claim states it, fails: \<open>get_reddit_posts\<close> with the subreddit value
  \<^verbatim>\<open>a b&c=d\<close> builds a path that contains the value as it is, with its space, its
  ampersand and its equals sign.
\<close>

theorem query_value_encoded_counterexample:
  "envelope_path (get_reddit_posts_payload 10 (Some ''a b&c=d''))
     = Some (JStr ''/api/v1/reddit/posts?limit=10&subreddit=a b&c=d'')"
  by (simp add: envelope_path_def member_def get_reddit_posts_payload_def gateway_event_def
        query_params_def str_int_10)

text \<open>
  C9 amended. A subreddit value that is given and not empty is placed verbatim, without
  any encoding, after \<^verbatim>\<open>&subreddit=\<close> at the end of the envelope's path, and verbatim in
  \<^verbatim>\<open>queryStringParameters\<close>; the limit is written in decimal.
\<close>

theorem query_value_verbatim:
  assumes "s \<noteq> []"
  shows "envelope_path (get_reddit_posts_payload limit (Some s))
           = Some (JStr (''/api/v1/reddit/posts?limit='' @ str_int limit @ ''&subreddit='' @ s))
       \<and> envelope_query (get_reddit_posts_payload limit (Some s)) ''subreddit''
           = Some (JStr s)
       \<and> envelope_query (get_reddit_posts_payload limit (Some s)) ''limit''
           = Some (JStr (str_int limit))"
  using assms
  by (simp add: envelope_path_def envelope_query_def member_def get_reddit_posts_payload_def
        gateway_event_def query_params_def query_string_parameters_def)

theorem query_value_verbatim_witness:
  "''a b&c=d'' \<noteq> []
   \<and> envelope_path (get_reddit_posts_payload 10 (Some ''a b&c=d''))
       = Some (JStr (''/api/v1/reddit/posts?limit='' @ str_int 10 @ ''&subreddit='' @ ''a b&c=d''))
   \<and> envelope_query (get_reddit_posts_payload 10 (Some ''a b&c=d'')) ''subreddit''
       = Some (JStr ''a b&c=d'')"
proof -
  have h: "''a b&c=d'' \<noteq> []"
    by simp
  from h query_value_verbatim [OF h, of 10] show ?thesis
    by blast
qed

lemma stub_lookup_absent:
  "get_story_summary_by_post_id stub_runtime (stub_target 1 (Inr not_found_response)) n
     = Inr None"
  by (rule by_post_id_not_200 [OF stub_outcome stub_not_found_parses])
     (simp add: status_is_def dict_get_def)

subsection \<open>C7: the route answers an absent summary\<close>

lemma get_summary_absent:
  assumes "get_story_summary_by_post_id rt invoke pid = Inr None"
  shows "get_summary rt invoke pid
           = Inl (HTTPException 500 (''Failed to get summary: '' @
                    str_exc rt (HTTPException 404 ''Summary not found'')))"
  using assms by (simp add: get_summary_def get_summary_try_def)

lemma get_summary_never_404: "response_status (get_summary rt invoke pid) \<noteq> 404"
  by (simp add: response_status_def get_summary_def split: sum.splits)

text \<open>
  C7. Against the target that answers 404, \<open>get_story_summary_by_post_id\<close> returns
  \<^verbatim>\<open>None\<close>; the 404 that \<open>get_summary\<close> raises for it is caught by the handler's own
  \<^verbatim>\<open>except Exception\<close>, and the response has status 500.
\<close>

theorem get_summary_absent_answers_500:
  "get_story_summary_by_post_id stub_runtime (stub_target 1 (Inr not_found_response)) 42
     = Inr None
   \<and> get_summary stub_runtime (stub_target 1 (Inr not_found_response)) 42
     = Inl (HTTPException 500 ''Failed to get summary: 404: Summary not found'')
   \<and> response_status (get_summary stub_runtime (stub_target 1 (Inr not_found_response)) 42)
     = 500"
proof -
  have s404: "str_int 404 = ''404''"
    by code_simp
  have a: "get_story_summary_by_post_id stub_runtime (stub_target 1 (Inr not_found_response)) 42
             = Inr None"
    by (rule stub_lookup_absent)
  have str404: "str_exc stub_runtime (HTTPException 404 ''Summary not found'')
                  = ''404: Summary not found''"
    by (simp add: str_exc_def stub_runtime_def s404)
  have b: "get_summary stub_runtime (stub_target 1 (Inr not_found_response)) 42
             = Inl (HTTPException 500 ''Failed to get summary: 404: Summary not found'')"
    by (simp add: get_summary_absent [OF a] str404)
  from a b show ?thesis
    by (simp add: response_status_def)
qed

subsection \<open>C10: check, then create\<close>

lemma pure_step_appends: "\<exists>ys. snd (snd (pure_step r st)) = snd st @ ys"
  by (simp add: pure_step_def)

lemma read_utcnow_appends: "\<exists>ys. snd (snd (read_utcnow c st)) = snd st @ ys"
  by (simp add: read_utcnow_def split: prod.splits)

lemma call_generate_text_appends:
  "\<exists>ys. snd (snd (call_generate_text c prompt model_id parameters st)) = snd st @ ys"
  by (simp add: call_generate_text_def split: prod.splits)

lemma call_create_story_summary_appends:
  "\<exists>ys. snd (snd (call_create_story_summary c s st)) = snd st @ ys"
  by (simp add: call_create_story_summary_def split: prod.splits)

lemma then_do_appends:
  assumes "\<And>st. \<exists>ys. snd (snd (m st)) = snd st @ ys"
    and "\<And>x st. \<exists>ys. snd (snd (f x st)) = snd st @ ys"
  shows "\<exists>ys. snd (snd (then_do m f st)) = snd st @ ys"
proof (cases "m st")
  case (fields r w tr)
  from assms(1) [of st] fields obtain ys where ys: "tr = snd st @ ys"
    by auto
  show ?thesis
  proof (cases r)
    case (Inl e)
    with fields ys show ?thesis
      by (simp add: then_do_def)
  next
    case (Inr x)
    from assms(2) [of x "(w, tr)"] obtain zs where "snd (snd (f x (w, tr))) = tr @ zs"
      by auto
    with fields Inr ys show ?thesis
      by (simp add: then_do_def)
  qed
qed

lemma by_id_rest_appends:
  "\<exists>ys. snd (snd (
     (then_do (read_utcnow c) (\<lambda>post_created_at.
      then_do (pure_step (prepare_comments_text rt mock_top_comments)) (\<lambda>comments_text.
      then_do (call_generate_text c (mock_story_prompt pid comments_text) None
                 story_parameters) (\<lambda>story.
      then_do (call_generate_text c mock_summary_prompt None summary_parameters)
              (\<lambda>summary_text.
      then_do (read_utcnow c) (\<lambda>generated_at.
      then_do (pure_step (StorySummaryCreate_init rt pid (''Summary: '' @ mock_title pid)
                            summary_text story DEFAULT_MODEL
                            (mock_metadata rt pid generated_at))) (\<lambda>new_summary.
      call_create_story_summary c new_summary))))))) st)) = snd st @ ys"
  by (intro then_do_appends pure_step_appends read_utcnow_appends call_generate_text_appends
        call_create_story_summary_appends)

lemma generate_rest_appends:
  "\<exists>ys. snd (snd (
     (then_do (pure_step (prepare_comments_text rt cs)) (\<lambda>comments_text.
      then_do (pure_step (config_get_story_prompt c ttl content comments_text))
              (\<lambda>story_prompt.
      then_do (pure_step (config_get_model_params c (model_or_default model_id)))
              (\<lambda>story_params.
      then_do (call_generate_text c story_prompt model_id story_params) (\<lambda>story.
      then_do (pure_step (config_get_summary_prompt c ttl content comments_text))
              (\<lambda>summary_prompt.
      then_do (pure_step (config_get_model_params c (model_or_default model_id)))
              (\<lambda>base_params.
      then_do (pure_step (with_max_length base_params)) (\<lambda>summary_params.
      then_do (call_generate_text c summary_prompt model_id summary_params)
              (\<lambda>summary_text.
      then_do (read_utcnow c) (\<lambda>generated_at.
      then_do (pure_step (config_get_model_params c (model_or_default model_id)))
              (\<lambda>generation_params.
      then_do (pure_step (StorySummaryCreate_init rt pid (''Summary: '' @ ttl)
                            summary_text story (model_or_default model_id)
                            [(''original_title'', JStr ttl),
                             (''comment_count'', JInt (int (length cs))),
                             (''generation_timestamp'', JStr (isoformat rt generated_at)),
                             (''generation_params'', generation_params)]))
              (\<lambda>new_summary.
      call_create_story_summary c new_summary)))))))))))) st)) = snd st @ ys"
  by (intro then_do_appends pure_step_appends read_utcnow_appends call_generate_text_appends
        call_create_story_summary_appends)

lemma by_id_found:
  assumes "client_get_story_summary_by_post_id c pid w = (Inr (Some existing), w')"
  shows "generate_summary_by_id c rt pid (w, tr)
           = (Inr existing, w', tr @ [GetStorySummaryByPostId pid])"
  using assms
  by (simp add: generate_summary_by_id_def then_do_def call_get_story_summary_by_post_id_def
        pure_step_def)

lemma by_id_lookup_raised:
  assumes "client_get_story_summary_by_post_id c pid w = (Inl e, w')"
  shows "generate_summary_by_id c rt pid (w, tr)
           = (Inl e, w', tr @ [GetStorySummaryByPostId pid])"
  using assms
  by (simp add: generate_summary_by_id_def then_do_def call_get_story_summary_by_post_id_def)

lemma by_id_first_call:
  "\<exists>rest. calls_of (generate_summary_by_id c rt pid (w, []))
            = GetStorySummaryByPostId pid # rest"
proof (cases "client_get_story_summary_by_post_id c pid w")
  case (Pair r w')
  show ?thesis
  proof (cases r)
    case (Inl e)
    with Pair show ?thesis
      by (simp add: by_id_lookup_raised calls_of_def)
  next
    case (Inr found)
    show ?thesis
    proof (cases found)
      case None
      with Pair Inr
        by_id_rest_appends [of c rt pid "(w', [GetStorySummaryByPostId pid])"]
      show ?thesis
        by (auto simp add: generate_summary_by_id_def then_do_def [of "call_get_story_summary_by_post_id c pid"]
              call_get_story_summary_by_post_id_def calls_of_def)
    next
      case (Some existing)
      with Pair Inr show ?thesis
        by (simp add: by_id_found calls_of_def)
    qed
  qed
qed

lemma by_id_create_only_after_none:
  assumes "CreateStorySummary s \<in> set (calls_of (generate_summary_by_id c rt pid (w, [])))"
  shows "fst (client_get_story_summary_by_post_id c pid w) = Inr None"
proof (cases "client_get_story_summary_by_post_id c pid w")
  case (Pair r w')
  show ?thesis
  proof (cases r)
    case (Inl e)
    with Pair assms show ?thesis
      by (simp add: by_id_lookup_raised calls_of_def)
  next
    case (Inr found)
    show ?thesis
    proof (cases found)
      case None
      with Pair Inr show ?thesis by simp
    next
      case (Some existing)
      with Pair Inr assms show ?thesis
        by (simp add: by_id_found calls_of_def)
    qed
  qed
qed

lemma generate_found:
  assumes "client_get_story_summary_by_post_id c pid w = (Inr (Some existing), w')"
  shows "generate_summary c rt pid ttl content cs model_id (w, tr)
           = (Inr existing, w', tr @ [GetStorySummaryByPostId pid])"
  using assms
  by (simp add: generate_summary_def then_do_def call_get_story_summary_by_post_id_def
        pure_step_def)

lemma generate_lookup_raised:
  assumes "client_get_story_summary_by_post_id c pid w = (Inl e, w')"
  shows "generate_summary c rt pid ttl content cs model_id (w, tr)
           = (Inl e, w', tr @ [GetStorySummaryByPostId pid])"
  using assms
  by (simp add: generate_summary_def then_do_def call_get_story_summary_by_post_id_def)

lemma generate_first_call:
  "\<exists>rest. calls_of (generate_summary c rt pid ttl content cs model_id (w, []))
            = GetStorySummaryByPostId pid # rest"
proof (cases "client_get_story_summary_by_post_id c pid w")
  case (Pair r w')
  show ?thesis
  proof (cases r)
    case (Inl e)
    with Pair show ?thesis
      by (simp add: generate_lookup_raised calls_of_def)
  next
    case (Inr found)
    show ?thesis
    proof (cases found)
      case None
      with Pair Inr
        generate_rest_appends [of rt cs c ttl content model_id pid
          "(w', [GetStorySummaryByPostId pid])"]
      show ?thesis
        by (auto simp add: generate_summary_def
              then_do_def [of "call_get_story_summary_by_post_id c pid"]
              call_get_story_summary_by_post_id_def calls_of_def)
    next
      case (Some existing)
      with Pair Inr show ?thesis
        by (simp add: generate_found calls_of_def)
    qed
  qed
qed

lemma generate_create_only_after_none:
  assumes "CreateStorySummary s
             \<in> set (calls_of (generate_summary c rt pid ttl content cs model_id (w, [])))"
  shows "fst (client_get_story_summary_by_post_id c pid w) = Inr None"
proof (cases "client_get_story_summary_by_post_id c pid w")
  case (Pair r w')
  show ?thesis
  proof (cases r)
    case (Inl e)
    with Pair assms show ?thesis
      by (simp add: generate_lookup_raised calls_of_def)
  next
    case (Inr found)
    show ?thesis
    proof (cases found)
      case None
      with Pair Inr show ?thesis by simp
    next
      case (Some existing)
      with Pair Inr assms show ?thesis
        by (simp add: generate_found calls_of_def)
    qed
  qed
qed

text \<open>
  C10. Started with no call made, \<open>generate_summary_by_id\<close> and \<open>generate_summary\<close> call
  \<open>get_story_summary_by_post_id\<close> for the post before anything else. If that lookup
  returns a summary, the method returns that summary unchanged and the lookup is the only
  call it makes; and whenever \<open>create_story_summary\<close> occurs among the calls of a run, the
  lookup of that run returned \<^verbatim>\<open>None\<close>.
\<close>

theorem check_then_create:
  "(\<exists>rest. calls_of (generate_summary_by_id c rt pid (w, []))
             = GetStorySummaryByPostId pid # rest)
   \<and> (fst (client_get_story_summary_by_post_id c pid w) = Inr (Some existing)
        \<longrightarrow> result_of (generate_summary_by_id c rt pid (w, [])) = Inr existing
            \<and> calls_of (generate_summary_by_id c rt pid (w, [])) = [GetStorySummaryByPostId pid])
   \<and> (CreateStorySummary s \<in> set (calls_of (generate_summary_by_id c rt pid (w, [])))
        \<longrightarrow> fst (client_get_story_summary_by_post_id c pid w) = Inr None)
   \<and> (\<exists>rest. calls_of (generate_summary c rt pid ttl content cs model_id (w, []))
             = GetStorySummaryByPostId pid # rest)
   \<and> (fst (client_get_story_summary_by_post_id c pid w) = Inr (Some existing)
        \<longrightarrow> result_of (generate_summary c rt pid ttl content cs model_id (w, [])) = Inr existing
            \<and> calls_of (generate_summary c rt pid ttl content cs model_id (w, []))
                = [GetStorySummaryByPostId pid])
   \<and> (CreateStorySummary s
          \<in> set (calls_of (generate_summary c rt pid ttl content cs model_id (w, [])))
        \<longrightarrow> fst (client_get_story_summary_by_post_id c pid w) = Inr None)"
proof (intro conjI impI)
  show "\<exists>rest. calls_of (generate_summary_by_id c rt pid (w, []))
                 = GetStorySummaryByPostId pid # rest"
    by (rule by_id_first_call)
  show "\<exists>rest. calls_of (generate_summary c rt pid ttl content cs model_id (w, []))
                 = GetStorySummaryByPostId pid # rest"
    by (rule generate_first_call)
next
  assume found: "fst (client_get_story_summary_by_post_id c pid w) = Inr (Some existing)"
  then obtain w' where
    "client_get_story_summary_by_post_id c pid w = (Inr (Some existing), w')"
    by (cases "client_get_story_summary_by_post_id c pid w") simp
  then show "result_of (generate_summary_by_id c rt pid (w, [])) = Inr existing"
    and "calls_of (generate_summary_by_id c rt pid (w, [])) = [GetStorySummaryByPostId pid]"
    and "result_of (generate_summary c rt pid ttl content cs model_id (w, [])) = Inr existing"
    and "calls_of (generate_summary c rt pid ttl content cs model_id (w, []))
           = [GetStorySummaryByPostId pid]"
    by (simp_all add: by_id_found generate_found result_of_def calls_of_def)
next
  assume "CreateStorySummary s \<in> set (calls_of (generate_summary_by_id c rt pid (w, [])))"
  then show "fst (client_get_story_summary_by_post_id c pid w) = Inr None"
    by (rule by_id_create_only_after_none)
next
  assume "CreateStorySummary s
            \<in> set (calls_of (generate_summary c rt pid ttl content cs model_id (w, [])))"
  then show "fst (client_get_story_summary_by_post_id c pid w) = Inr None"
    by (rule generate_create_only_after_none)
qed

lemma stub_lookup_found:
  "get_story_summary_by_post_id stub_runtime (stub_target 1 (Inr created_response)) 7
     = Inr (Some created_summary)"
proof -
  have "StorySummary_validate stub_runtime created_record = Some created_summary"
    by (simp add: StorySummary_validate_def created_record_def field_int_def field_str_def
          field_optional_dict_def field_datetime_default_now_def stub_runtime_def
          created_summary_def)
  then show ?thesis
    by (simp add: get_story_summary_by_post_id_def get_story_summary_by_post_id_try_def
          wait_for_def stub_elapsed stub_outcome timeout_seconds_def response_dict_def
          stub_created_parses status_200_literal dict_get_def loads_value_def
          stub_created_body_parses StorySummary_init_def)
qed

lemma stub_create_not_found:
  "create_story_summary stub_runtime (stub_target 1 (Inr not_found_response)) s
     = Inl (Exception ''Failed to create story summary: Unknown error'')"
  using create_not_200 [of "stub_target 1 (Inr not_found_response)" stub_runtime s
      not_found_response "[(''statusCode'', JInt 404)]"] stub_not_found_parses
  by (simp add: stub_outcome stub_elapsed timeout_seconds_def status_is_def dict_get_def
        format_value_def)

lemma stub_clock: "utcnow stub_runtime = stub_datetime"
  by (simp add: stub_runtime_def)

lemma stub_isoformat: "isoformat stub_runtime t = ''2025-10-06T10:00:00''"
  by (simp add: stub_runtime_def)

lemma stub_by_id_run:
  "calls_of (generate_summary_by_id (stub_collaborators (stub_target 1 (Inr not_found_response)))
      stub_runtime 7 ((), []))
   = [GetStorySummaryByPostId 7,
      GenerateText (mock_story_prompt 7 ''Top comment: Mock comment for testing'') None
        story_parameters,
      GenerateText mock_summary_prompt None summary_parameters,
      CreateStorySummary
        \<lparr>post_id = 7, title = ''Summary: '' @ mock_title 7, summary = ''generated'',
         generated_story = ''generated'', model_used = DEFAULT_MODEL,
         generation_metadata = Some (mock_metadata stub_runtime 7 stub_datetime)\<rparr>]"
  by (simp add: generate_summary_by_id_def then_do_def call_get_story_summary_by_post_id_def
        call_generate_text_def call_create_story_summary_def read_utcnow_def pure_step_def
        stub_collaborators_def stub_lookup_absent stub_create_not_found calls_of_def
        prepare_comments_text_def mock_top_comments_def dict_get_def format_value_def
        StorySummaryCreate_init_def validate_str_def stub_clock stub_isoformat)

lemma stub_generate_run:
  "calls_of (generate_summary (stub_collaborators (stub_target 1 (Inr not_found_response)))
      stub_runtime 7 ''t'' ''c'' [] None ((), []))
   = [GetStorySummaryByPostId 7,
      GenerateText ''story'' None (JObj [(''max_length'', JInt 150)]),
      GenerateText ''summary'' None (JObj [(''max_length'', JInt 300)]),
      CreateStorySummary
        \<lparr>post_id = 7, title = ''Summary: t'', summary = ''generated'',
         generated_story = ''generated'', model_used = DEFAULT_MODEL,
         generation_metadata = Some [
           (''original_title'', JStr ''t''),
           (''comment_count'', JInt 0),
           (''generation_timestamp'', JStr ''2025-10-06T10:00:00''),
           (''generation_params'', JObj [(''max_length'', JInt 150)])]\<rparr>]"
  by (simp add: generate_summary_def then_do_def call_get_story_summary_by_post_id_def
        call_generate_text_def call_create_story_summary_def read_utcnow_def pure_step_def
        stub_collaborators_def stub_lookup_absent stub_create_not_found calls_of_def
        prepare_comments_text_def with_max_length_def model_or_default_def
        StorySummaryCreate_init_def validate_str_def stub_clock stub_isoformat)

text \<open>
  With the configuration class as the repository declares it, \<open>generate_summary\<close> stops at
  its first configuration call after an empty lookup, and never reaches the creation.
\<close>

lemma declared_config_run:
  "generate_summary (declared_config (stub_collaborators (stub_target 1 (Inr not_found_response))))
      stub_runtime 7 ''t'' ''c'' [] None ((), [])
   = (Inl AttributeError, (), [GetStorySummaryByPostId 7])"
  by (simp add: generate_summary_def then_do_def call_get_story_summary_by_post_id_def
        pure_step_def stub_collaborators_def declared_config_def stub_lookup_absent
        prepare_comments_text_def)

theorem check_then_create_witness:
  "fst (client_get_story_summary_by_post_id
          (stub_collaborators (stub_target 1 (Inr created_response))) 7 ())
     = Inr (Some created_summary)
   \<and> result_of (generate_summary_by_id (stub_collaborators (stub_target 1 (Inr created_response)))
        stub_runtime 7 ((), [])) = Inr created_summary
   \<and> calls_of (generate_summary_by_id (stub_collaborators (stub_target 1 (Inr created_response)))
        stub_runtime 7 ((), [])) = [GetStorySummaryByPostId 7]
   \<and> result_of (generate_summary (stub_collaborators (stub_target 1 (Inr created_response)))
        stub_runtime 7 ''t'' ''c'' [] None ((), [])) = Inr created_summary
   \<and> calls_of (generate_summary (stub_collaborators (stub_target 1 (Inr created_response)))
        stub_runtime 7 ''t'' ''c'' [] None ((), [])) = [GetStorySummaryByPostId 7]
   \<and> CreateStorySummary
        \<lparr>post_id = 7, title = ''Summary: '' @ mock_title 7, summary = ''generated'',
         generated_story = ''generated'', model_used = DEFAULT_MODEL,
         generation_metadata = Some (mock_metadata stub_runtime 7 stub_datetime)\<rparr>
       \<in> set (calls_of (generate_summary_by_id
                (stub_collaborators (stub_target 1 (Inr not_found_response)))
                stub_runtime 7 ((), [])))
   \<and> CreateStorySummary
        \<lparr>post_id = 7, title = ''Summary: t'', summary = ''generated'',
         generated_story = ''generated'', model_used = DEFAULT_MODEL,
         generation_metadata = Some [
           (''original_title'', JStr ''t''),
           (''comment_count'', JInt 0),
           (''generation_timestamp'', JStr ''2025-10-06T10:00:00''),
           (''generation_params'', JObj [(''max_length'', JInt 150)])]\<rparr>
       \<in> set (calls_of (generate_summary
                (stub_collaborators (stub_target 1 (Inr not_found_response)))
                stub_runtime 7 ''t'' ''c'' [] None ((), [])))
   \<and> fst (client_get_story_summary_by_post_id
            (stub_collaborators (stub_target 1 (Inr not_found_response))) 7 ())
       = Inr None"
proof -
  let ?found = "stub_collaborators (stub_target 1 (Inr created_response))"
  let ?absent = "stub_collaborators (stub_target 1 (Inr not_found_response))"
  let ?new = "\<lparr>post_id = 7, title = ''Summary: '' @ mock_title 7, summary = ''generated'',
               generated_story = ''generated'', model_used = DEFAULT_MODEL,
               generation_metadata = Some (mock_metadata stub_runtime 7 stub_datetime)\<rparr>"
  have h1: "fst (client_get_story_summary_by_post_id ?found 7 ()) = Inr (Some created_summary)"
    by (simp add: stub_collaborators_def stub_lookup_found)
  have h2: "CreateStorySummary ?new
              \<in> set (calls_of (generate_summary_by_id ?absent stub_runtime 7 ((), [])))"
    by (simp add: stub_by_id_run)
  let ?new' = "\<lparr>post_id = 7, title = ''Summary: t'', summary = ''generated'',
               generated_story = ''generated'', model_used = DEFAULT_MODEL,
               generation_metadata = Some [
                 (''original_title'', JStr ''t''),
                 (''comment_count'', JInt 0),
                 (''generation_timestamp'', JStr ''2025-10-06T10:00:00''),
                 (''generation_params'', JObj [(''max_length'', JInt 150)])]\<rparr>"
  have h3: "CreateStorySummary ?new'
              \<in> set (calls_of (generate_summary ?absent stub_runtime 7 ''t'' ''c'' [] None
                                    ((), [])))"
    by (simp add: stub_generate_run)
  from h1 h2 h3
    check_then_create [of ?found stub_runtime 7 "()" created_summary _ "''t''" "''c''" "[]" None]
    check_then_create [of ?absent stub_runtime 7 "()" _ ?new]
    check_then_create [of ?absent stub_runtime 7 "()" _ ?new' "''t''" "''c''" "[]" None]
  show ?thesis
    by blast
qed

end
